theory Spec2Isabelle
  imports Main
begin

section \<open>JavaScript values\<close>

text \<open>
  The handler of \<^verbatim>\<open>src/api/proxy.js\<close> works on JSON-like JavaScript values: the request
  body, the topic taken from it, the payload sent upstream and the data relayed back.
  Strings are UTF-8 byte lists (\<^typ>\<open>string\<close>); a JavaScript string is empty exactly when
  its encoding is, and concatenation commutes with the encoding, which is all the handler
  does with strings. A number is kept as its rendering under JavaScript's number-to-string
  conversion (\<^verbatim>\<open>0\<close> and \<^verbatim>\<open>-0\<close> both render as \<^verbatim>\<open>0\<close>). An object is the list of
  its own properties in insertion order.
\<close>

datatype jsval =
    JUndefined
  | JNull
  | JBool bool
  | JNum string
  | JStr string
  | JArr "jsval list"
  | JObj "(string \<times> jsval) list"

text \<open>A thrown JavaScript error object: its \<^verbatim>\<open>name\<close> and its \<^verbatim>\<open>message\<close>.\<close>

datatype js_error = JsError (err_name: string) (message: string)

text \<open>\<^verbatim>\<open>!v\<close> is true for undefined, null, false, the numbers 0 and NaN, and the empty string.\<close>

fun truthy :: "jsval \<Rightarrow> bool" where
  "truthy JUndefined = False"
| "truthy JNull = False"
| "truthy (JBool b) = b"
| "truthy (JNum r) = (r \<noteq> ''0'' \<and> r \<noteq> ''NaN'')"
| "truthy (JStr s) = (s \<noteq> [])"
| "truthy (JArr xs) = True"
| "truthy (JObj kvs) = True"

text \<open>Property lookup on an object built from JSON: the own property, or undefined.\<close>

definition get_prop :: "(string \<times> jsval) list \<Rightarrow> string \<Rightarrow> jsval" where
  "get_prop kvs k = (case map_of kvs k of None \<Rightarrow> JUndefined | Some v \<Rightarrow> v)"

fun intercalate :: "string \<Rightarrow> string list \<Rightarrow> string" where
  "intercalate sep [] = []"
| "intercalate sep [s] = s"
| "intercalate sep (s # t # ss) = s @ sep @ intercalate sep (t # ss)"

text \<open>
  The string conversion a template literal applies to \<^verbatim>\<open>${v}\<close>. A string is itself; an
  array joins its elements with commas, null and undefined elements rendered empty; a
  plain object renders as \<^verbatim>\<open>[object Object]\<close>, unless an own property
  \<^verbatim>\<open>toString\<close> shadows the inherited method: a JSON value is never callable, the
  inherited \<^verbatim>\<open>valueOf\<close> returns the object itself, and the conversion throws a TypeError.
\<close>

definition no_primitive :: js_error where
  "no_primitive = JsError ''TypeError'' ''Cannot convert object to primitive value''"

fun to_string :: "jsval \<Rightarrow> js_error + string"
  and join_elems :: "jsval list \<Rightarrow> js_error + string list" where
  "to_string JUndefined = Inr ''undefined''"
| "to_string JNull = Inr ''null''"
| "to_string (JBool b) = Inr (if b then ''true'' else ''false'')"
| "to_string (JNum r) = Inr r"
| "to_string (JStr s) = Inr s"
| "to_string (JArr xs) =
     (case join_elems xs of Inl e \<Rightarrow> Inl e | Inr ss \<Rightarrow> Inr (intercalate '','' ss))"
| "to_string (JObj kvs) =
     (if map_of kvs ''toString'' \<noteq> None then Inl no_primitive else Inr ''[object Object]'')"
| "join_elems [] = Inr []"
| "join_elems (x # xs) =
     (case (if x = JUndefined \<or> x = JNull then Inr [] else to_string x) of
        Inl e \<Rightarrow> Inl e
      | Inr s \<Rightarrow> (case join_elems xs of Inl e \<Rightarrow> Inl e | Inr ss \<Rightarrow> Inr (s # ss)))"

text \<open>Decimal rendering of a non-negative integer, as for \<^verbatim>\<open>${geminiResponse.status}\<close>.\<close>

definition digit_char :: "nat \<Rightarrow> char" where
  "digit_char d = char_of (48 + d)"

function decimal :: "nat \<Rightarrow> string" where
  "decimal n = (if n < 10 then [digit_char n] else decimal (n div 10) @ [digit_char (n mod 10)])"
  by pat_completeness auto
termination
  by (relation "measure id") auto

section \<open>JSON serialisation\<close>

text \<open>
  \<^verbatim>\<open>JSON.stringify\<close> on the values above (objects with no integer-like keys, such as the
  payload below, are written in insertion order). Undefined has no rendering: inside an
  array it is written \<^verbatim>\<open>null\<close>, and a property holding it is left out.
\<close>

definition hex_char :: "nat \<Rightarrow> char" where
  "hex_char d = (if d < 10 then char_of (48 + d) else char_of (87 + d))"

definition escape_char :: "char \<Rightarrow> string" where
  "escape_char c =
     (let n = (of_char c :: nat) in
      if n = 0x22 then [CHR 0x5C, CHR 0x22]
      else if n = 0x5C then [CHR 0x5C, CHR 0x5C]
      else if n = 0x08 then [CHR 0x5C] @ ''b''
      else if n = 0x09 then [CHR 0x5C] @ ''t''
      else if n = 0x0A then [CHR 0x5C] @ ''n''
      else if n = 0x0C then [CHR 0x5C] @ ''f''
      else if n = 0x0D then [CHR 0x5C] @ ''r''
      else if n < 0x20 then [CHR 0x5C] @ ''u00'' @ [hex_char (n div 16), hex_char (n mod 16)]
      else [c])"

definition quote :: "string \<Rightarrow> string" where
  "quote s = [CHR 0x22] @ concat (map escape_char s) @ [CHR 0x22]"

fun stringify :: "jsval \<Rightarrow> string option"
  and stringify_elems :: "jsval list \<Rightarrow> string list"
  and stringify_props :: "(string \<times> jsval) list \<Rightarrow> string list" where
  "stringify JUndefined = None"
| "stringify JNull = Some ''null''"
| "stringify (JBool b) = Some (if b then ''true'' else ''false'')"
| "stringify (JNum r) =
     Some (if r = ''NaN'' \<or> r = ''Infinity'' \<or> r = ''-Infinity'' then ''null'' else r)"
| "stringify (JStr s) = Some (quote s)"
| "stringify (JArr xs) = Some (''['' @ intercalate '','' (stringify_elems xs) @ '']'')"
| "stringify (JObj kvs) = Some (''{'' @ intercalate '','' (stringify_props kvs) @ ''}'')"
| "stringify_elems [] = []"
| "stringify_elems (x # xs) =
     (case stringify x of None \<Rightarrow> ''null'' | Some s \<Rightarrow> s) # stringify_elems xs"
| "stringify_props [] = []"
| "stringify_props ((k, v) # kvs) =
     (case stringify v of
        None \<Rightarrow> stringify_props kvs
      | Some s \<Rightarrow> (quote k @ '':'' @ s) # stringify_props kvs)"

section \<open>The request, the platform and the observable effects\<close>

text \<open>The two fields of the inbound request that the handler reads.\<close>

record request =
  req_method :: string
  req_body :: jsval

text \<open>The second argument of \<^verbatim>\<open>fetch\<close>; a body that is undefined is no body.\<close>

record fetch_init =
  init_method :: string
  init_headers :: "(string \<times> string) list"
  init_body :: "string option"

text \<open>
  What the handler reads of the upstream response: its status, and what awaiting
  \<^verbatim>\<open>text()\<close> and \<^verbatim>\<open>json()\<close> gives, a value or a thrown error (\<^verbatim>\<open>json()\<close> throws a
  SyntaxError on a body that is not JSON). \<^verbatim>\<open>ok\<close> is, by the Fetch standard, a status
  from 200 to 299.
\<close>

record fetch_response =
  status :: nat
  text_result :: "js_error + string"
  json_result :: "js_error + jsval"

definition ok :: "fetch_response \<Rightarrow> bool" where
  "ok r = (200 \<le> status r \<and> status r \<le> 299)"

text \<open>
  The platform a run of the handler meets: the process environment, and the outcome of
  an awaited \<^verbatim>\<open>fetch\<close> for a given URL and init, the response or the error thrown when the
  transport fails. Every awaited call is taken to settle.
\<close>

record platform =
  process_env :: "string \<Rightarrow> string option"
  fetch :: "string \<Rightarrow> fetch_init \<Rightarrow> js_error + fetch_response"

text \<open>
  What a run does to the outside, in order: a \<^verbatim>\<open>console.error\<close> line with its arguments,
  an outbound \<^verbatim>\<open>fetch\<close>, and \<^verbatim>\<open>response.status(code).json(body)\<close>.
\<close>

datatype logged = LogText string | LogErr js_error

datatype effect =
    ConsoleError "logged list"
  | Fetch string fetch_init
  | Respond nat jsval

section \<open>String constants of the handler\<close>

definition msg_topic_required :: string where
  "msg_topic_required =
     [CHR 0xE4, CHR 0xB8, CHR 0xBB, CHR 0xE9, CHR 0xA1, CHR 0x8C, CHR 0xE7, CHR 0x82, CHR 0xBA,
      CHR 0xE5, CHR 0xBF, CHR 0x85, CHR 0xE5, CHR 0xA1, CHR 0xAB, CHR 0xE9, CHR 0xA0, CHR 0x85]"

definition log_key_missing :: string where
  "log_key_missing =
     [CHR 0xE9, CHR 0x8C, CHR 0xAF, CHR 0xE8, CHR 0xAA, CHR 0xA4, CHR 0xEF, CHR 0xBC, CHR 0x9A,
      CHR 0xE6, CHR 0x89, CHR 0xBE, CHR 0xE4, CHR 0xB8, CHR 0x8D, CHR 0xE5, CHR 0x88, CHR 0xB0] @
     '' GEMINI_API_KEY '' @
     [CHR 0xE7, CHR 0x92, CHR 0xB0, CHR 0xE5, CHR 0xA2, CHR 0x83, CHR 0xE8, CHR 0xAE, CHR 0x8A,
      CHR 0xE6, CHR 0x95, CHR 0xB8]"

definition msg_key_missing :: string where
  "msg_key_missing =
     ''API '' @
     [CHR 0xE9, CHR 0x87, CHR 0x91, CHR 0xE9, CHR 0x91, CHR 0xB0, CHR 0xE6, CHR 0x9C, CHR 0xAA,
      CHR 0xE5, CHR 0x9C, CHR 0xA8, CHR 0xE4, CHR 0xBC, CHR 0xBA, CHR 0xE6, CHR 0x9C, CHR 0x8D,
      CHR 0xE5, CHR 0x99, CHR 0xA8, CHR 0xE4, CHR 0xB8, CHR 0x8A, CHR 0xE8, CHR 0xA8, CHR 0xAD,
      CHR 0xE5, CHR 0xAE, CHR 0x9A]"

definition systemPrompt :: string where
  "systemPrompt =
     [CHR 0xE4, CHR 0xBD, CHR 0xA0, CHR 0xE6, CHR 0x98, CHR 0xAF, CHR 0xE4, CHR 0xB8, CHR 0x80,
      CHR 0xE4, CHR 0xBD, CHR 0x8D, CHR 0xE5, CHR 0xB8, CHR 0x82, CHR 0xE5, CHR 0xA0, CHR 0xB4,
      CHR 0xE8, CHR 0xAA, CHR 0xBF, CHR 0xE6, CHR 0x9F, CHR 0xA5, CHR 0xE5, CHR 0x93, CHR 0xA1,
      CHR 0xE5, CHR 0x92, CHR 0x8C, CHR 0xE5, CHR 0xBB, CHR 0xA3, CHR 0xE5, CHR 0x91, CHR 0x8A,
      CHR 0xE5, CHR 0xB0, CHR 0x88, CHR 0xE6, CHR 0xA5, CHR 0xAD, CHR 0xE7, CHR 0x9A, CHR 0x84,
      CHR 0xE5, CHR 0xBB, CHR 0xA3, CHR 0xE5, CHR 0x91, CHR 0x8A, CHR 0xE6, CHR 0x8A, CHR 0x95,
      CHR 0xE5, CHR 0x94, CHR 0xAE, CHR 0xE3, CHR 0x80, CHR 0x82, CHR 0xE4, CHR 0xBD, CHR 0xA0,
      CHR 0xE7, CHR 0x9A, CHR 0x84, CHR 0xE4, CHR 0xBB, CHR 0xBB, CHR 0xE5, CHR 0x8B, CHR 0x99,
      CHR 0xE6, CHR 0x98, CHR 0xAF, CHR 0xE6, CHR 0xA0, CHR 0xB9, CHR 0xE6, CHR 0x93, CHR 0x9A,
      CHR 0xE7, CHR 0x94, CHR 0xA8, CHR 0xE6, CHR 0x88, CHR 0xB6, CHR 0xE6, CHR 0x8F, CHR 0x90,
      CHR 0xE4, CHR 0xBE, CHR 0x9B, CHR 0xE7, CHR 0x9A, CHR 0x84, CHR 0xE7, CHR 0x94, CHR 0xA2,
      CHR 0xE5, CHR 0x93, CHR 0x81, CHR 0xE6, CHR 0x88, CHR 0x96, CHR 0xE8, CHR 0xAA, CHR 0xB2,
      CHR 0xE7, CHR 0xA8, CHR 0x8B, CHR 0xE4, CHR 0xB8, CHR 0xBB, CHR 0xE9, CHR 0xA1, CHR 0x8C,
      CHR 0xEF, CHR 0xBC, CHR 0x8C, CHR 0xE7, CHR 0x94, CHR 0x9F, CHR 0xE6, CHR 0x88, CHR 0x90,
      CHR 0xE4, CHR 0xB8, CHR 0x80, CHR 0xE5, CHR 0x80, CHR 0x8B, CHR 0xE5, CHR 0x8C, CHR 0x85,
      CHR 0xE5, CHR 0x90, CHR 0xAB] @
     ''10'' @
     [CHR 0xE5, CHR 0x80, CHR 0x8B, CHR 0xE8, CHR 0xA1, CHR 0x8C, CHR 0xE7, CHR 0x82, CHR 0xBA,
      CHR 0xE7, CHR 0x9A, CHR 0x84, CHR 0xE5, CHR 0x88, CHR 0x97, CHR 0xE8, CHR 0xA1, CHR 0xA8,
      CHR 0xEF, CHR 0xBC, CHR 0x8C, CHR 0xE4, CHR 0xBB, CHR 0xA5, CHR 0xE5, CHR 0x8F, CHR 0x8A,
      CHR 0xE6, CHR 0xAF, CHR 0x8F, CHR 0xE5, CHR 0x80, CHR 0x8B, CHR 0xE8, CHR 0xA1, CHR 0x8C,
      CHR 0xE7, CHR 0x82, CHR 0xBA, CHR 0xE5, CHR 0xBA, CHR 0x95, CHR 0xE4, CHR 0xB8, CHR 0x8B] @
     ''8'' @
     [CHR 0xE5, CHR 0x88, CHR 0xB0] @
     ''10'' @
     [CHR 0xE5, CHR 0x80, CHR 0x8B, CHR 0xE7, CHR 0xB2, CHR 0xBE, CHR 0xE6, CHR 0xBA, CHR 0x96,
      CHR 0xE7, CHR 0x9A, CHR 0x84, CHR 0xE6, CHR 0x84, CHR 0x9F, CHR 0xE8, CHR 0x88, CHR 0x88,
      CHR 0xE8, CHR 0xB6, CHR 0xA3, CHR 0xE5, CHR 0x8F, CHR 0x97, CHR 0xE7, CHR 0x9C, CHR 0xBE,
      CHR 0xE3, CHR 0x80, CHR 0x82, CHR 0xE6, CHR 0x9C, CHR 0x80, CHR 0xE9, CHR 0x87, CHR 0x8D,
      CHR 0xE8, CHR 0xA6, CHR 0x81, CHR 0xE7, CHR 0x9A, CHR 0x84, CHR 0xE4, CHR 0xB8, CHR 0x80,
      CHR 0xE9, CHR 0xBB, CHR 0x9E, CHR 0xE6, CHR 0x98, CHR 0xAF, CHR 0xEF, CHR 0xBC, CHR 0x9A] @
     ''**'' @
     [CHR 0xE6, CHR 0xAF, CHR 0x8F, CHR 0xE5, CHR 0x80, CHR 0x8B, CHR 0xE6, CHR 0x84, CHR 0x9F,
      CHR 0xE8, CHR 0x88, CHR 0x88, CHR 0xE8, CHR 0xB6, CHR 0xA3, CHR 0xE5, CHR 0x8F, CHR 0x97,
      CHR 0xE7, CHR 0x9C, CHR 0xBE, CHR 0xE7, CHR 0x9A, CHR 0x84, CHR 0xE6, CHR 0x8F, CHR 0x8F,
      CHR 0xE8, CHR 0xBF, CHR 0xB0, CHR 0xE5, CHR 0xBE, CHR 0x8C, CHR 0xE6, CHR 0x96, CHR 0xB9,
      CHR 0xEF, CHR 0xBC, CHR 0x8C, CHR 0xE8, CHR 0xAB, CHR 0x8B, CHR 0xE5, CHR 0x8B, CHR 0x99,
      CHR 0xE5, CHR 0xBF, CHR 0x85, CHR 0xE4, CHR 0xBD, CHR 0xBF, CHR 0xE7, CHR 0x94, CHR 0xA8,
      CHR 0xE6, CHR 0x8B, CHR 0xAC, CHR 0xE8, CHR 0x99, CHR 0x9F] @
     '' '' @
     [CHR 0x60] @
     ''(...)'' @
     [CHR 0x60] @
     '' '' @
     [CHR 0xE6, CHR 0xA8, CHR 0x99, CHR 0xE7, CHR 0xA4, CHR 0xBA, CHR 0xE4, CHR 0xB8, CHR 0x80,
      CHR 0xE5, CHR 0x80, CHR 0x8B, CHR 0xE6, CHR 0x9C, CHR 0x80, CHR 0xE7, CHR 0x9B, CHR 0xB8,
      CHR 0xE9, CHR 0x97, CHR 0x9C, CHR 0xE7, CHR 0x9A, CHR 0x84, CHR 0xE5, CHR 0xBB, CHR 0xA3,
      CHR 0xE5, CHR 0x91, CHR 0x8A, CHR 0xE5, CHR 0xB9, CHR 0xB3, CHR 0xE5, CHR 0x8F, CHR 0xB0,
      CHR 0xE5, CHR 0x8F, CHR 0xAF, CHR 0xE9, CHR 0x81, CHR 0xB8, CHR 0xE5, CHR 0x8F, CHR 0x96,
      CHR 0xE7, CHR 0x9A, CHR 0x84, CHR 0xE5, CHR 0x8F, CHR 0x97, CHR 0xE7, CHR 0x9C, CHR 0xBE,
      CHR 0xE6, CHR 0xA8, CHR 0x99, CHR 0xE7, CHR 0xB1, CHR 0xA4, CHR 0xEF, CHR 0xBC, CHR 0x88,
      CHR 0xE4, CHR 0xBE, CHR 0x8B, CHR 0xE5, CHR 0xA6, CHR 0x82, CHR 0xEF, CHR 0xBC, CHR 0x9A,
      CHR 0xE8, CHR 0x88, CHR 0x88, CHR 0xE8, CHR 0xB6, CHR 0xA3, CHR 0xE6, CHR 0xA8, CHR 0x99,
      CHR 0xE7, CHR 0xB1, CHR 0xA4, CHR 0xE6, CHR 0x88, CHR 0x96, CHR 0xE8, CHR 0xA1, CHR 0x8C,
      CHR 0xE7, CHR 0x82, CHR 0xBA, CHR 0xE6, CHR 0xA8, CHR 0x99, CHR 0xE7, CHR 0xB1, CHR 0xA4,
      CHR 0xEF, CHR 0xBC, CHR 0x89, CHR 0xEF, CHR 0xBC, CHR 0x8C, CHR 0xE4, CHR 0xB8, CHR 0xA6,
      CHR 0xE7, CHR 0xB7, CHR 0x8A, CHR 0xE6, CHR 0x8E, CHR 0xA5, CHR 0xE8, CHR 0x91, CHR 0x97,
      CHR 0xE4, CHR 0xBD, CHR 0xBF, CHR 0xE7, CHR 0x94, CHR 0xA8, CHR 0xE6, CHR 0x96, CHR 0xB9,
      CHR 0xE6, CHR 0x8B, CHR 0xAC, CHR 0xE8, CHR 0x99, CHR 0x9F] @
     '' '' @
     [CHR 0x60] @
     ''[...]'' @
     [CHR 0x60] @
     '' '' @
     [CHR 0xE6, CHR 0xA8, CHR 0x99, CHR 0xE7, CHR 0xA4, CHR 0xBA, CHR 0xE8, CHR 0xA9, CHR 0xB2,
      CHR 0xE5, CHR 0x8F, CHR 0x97, CHR 0xE7, CHR 0x9C, CHR 0xBE, CHR 0xE8, CHR 0xA6, CHR 0x8F,
      CHR 0xE6, CHR 0xA8, CHR 0xA1, CHR 0xE7, CHR 0x9A, CHR 0x84, CHR 0xE9, CHR 0xA0, CHR 0x90,
      CHR 0xE4, CHR 0xBC, CHR 0xB0, CHR 0xE4, CHR 0xBA, CHR 0xBA, CHR 0xE6, CHR 0x95, CHR 0xB8,
      CHR 0xE7, CHR 0xAF, CHR 0x84, CHR 0xE5, CHR 0x9C, CHR 0x8D, CHR 0xE3, CHR 0x80, CHR 0x82,
      CHR 0xE8, CHR 0xAB, CHR 0x8B, CHR 0xE4, CHR 0xBB, CHR 0xA5, CHR 0xE4, CHR 0xB8, CHR 0xAD,
      CHR 0xE6, CHR 0x96, CHR 0x87, CHR 0xE6, CHR 0x95, CHR 0xB8, CHR 0xE5, CHR 0xAD, CHR 0x97,
      CHR 0xE5, CHR 0x96, CHR 0xAE, CHR 0xE4, CHR 0xBD, CHR 0x8D] @
     '' ('' @
     [CHR 0xE8, CHR 0x90, CHR 0xAC] @
     '', '' @
     [CHR 0xE7, CHR 0x99, CHR 0xBE, CHR 0xE8, CHR 0x90, CHR 0xAC] @
     '') '' @
     [CHR 0xE5, CHR 0x91, CHR 0x88, CHR 0xE7, CHR 0x8F, CHR 0xBE, CHR 0xEF, CHR 0xBC, CHR 0x8C,
      CHR 0xE4, CHR 0xBE, CHR 0x8B, CHR 0xE5, CHR 0xA6, CHR 0x82, CHR 0xEF, CHR 0xBC, CHR 0x9A] @
     ''['' @
     [CHR 0xE4, CHR 0xBA, CHR 0xBA, CHR 0xE6, CHR 0x95, CHR 0xB8, CHR 0xE7, CHR 0xAF, CHR 0x84,
      CHR 0xE5, CHR 0x9C, CHR 0x8D] @
     '': 20'' @
     [CHR 0xE8, CHR 0x90, CHR 0xAC] @
     '' - 150'' @
     [CHR 0xE8, CHR 0x90, CHR 0xAC] @
     '']**'' @
     [CHR 0xE3, CHR 0x80, CHR 0x82, CHR 0xE8, CHR 0xAB, CHR 0x8B, CHR 0xE4, CHR 0xBB, CHR 0xA5,
      CHR 0xE7, CHR 0xB9, CHR 0x81, CHR 0xE9, CHR 0xAB, CHR 0x94, CHR 0xE4, CHR 0xB8, CHR 0xAD,
      CHR 0xE6, CHR 0x96, CHR 0x87, CHR 0xE5, CHR 0x9B, CHR 0x9E, CHR 0xE6, CHR 0x87, CHR 0x89,
      CHR 0xEF, CHR 0xBC, CHR 0x8C, CHR 0xE4, CHR 0xB8, CHR 0xA6, CHR 0xE5, CHR 0x9A, CHR 0xB4,
      CHR 0xE6, CHR 0xA0, CHR 0xBC, CHR 0xE9, CHR 0x81, CHR 0xB5, CHR 0xE5, CHR 0xBE, CHR 0xAA,
      CHR 0xE6, CHR 0x8F, CHR 0x90, CHR 0xE4, CHR 0xBE, CHR 0x9B, CHR 0xE7, CHR 0x9A, CHR 0x84] @
     ''JSON'' @
     [CHR 0xE7, CHR 0xB5, CHR 0x90, CHR 0xE6, CHR 0xA7, CHR 0x8B, CHR 0xE5, CHR 0x92, CHR 0x8C,
      CHR 0xE6, CHR 0x95, CHR 0xB8, CHR 0xE9, CHR 0x87, CHR 0x8F, CHR 0xE8, CHR 0xA6, CHR 0x81,
      CHR 0xE6, CHR 0xB1, CHR 0x82, CHR 0xE3, CHR 0x80, CHR 0x82, CHR 0xE8, CHR 0xAB, CHR 0x8B,
      CHR 0xE7, CHR 0xA2, CHR 0xBA, CHR 0xE4, CHR 0xBF, CHR 0x9D, CHR 0xE5, CHR 0x8F, CHR 0x97,
      CHR 0xE7, CHR 0x9C, CHR 0xBE, CHR 0xE6, CHR 0x8F, CHR 0x8F, CHR 0xE8, CHR 0xBF, CHR 0xB0,
      CHR 0xE5, CHR 0x85, CHR 0xB7, CHR 0xE9, CHR 0xAB, CHR 0x94, CHR 0xE3, CHR 0x80, CHR 0x81,
      CHR 0xE5, CHR 0xB0, CHR 0x88, CHR 0xE6, CHR 0xA5, CHR 0xAD, CHR 0xE4, CHR 0xB8, CHR 0x94,
      CHR 0xE7, CHR 0xAC, CHR 0xA6, CHR 0xE5, CHR 0x90, CHR 0x88, CHR 0xE5, CHR 0xB8, CHR 0x82,
      CHR 0xE5, CHR 0xA0, CHR 0xB4, CHR 0xE8, CHR 0xA1, CHR 0x8C, CHR 0xE9, CHR 0x8A, CHR 0xB7,
      CHR 0xE7, CHR 0x9A, CHR 0x84, CHR 0xE9, CHR 0x82, CHR 0x8F, CHR 0xE8, CHR 0xBC, CHR 0xAF,
      CHR 0xE3, CHR 0x80, CHR 0x82]"

definition userQuery_prefix :: string where
  "userQuery_prefix =
     [CHR 0xE8, CHR 0xAB, CHR 0x8B, CHR 0xE9, CHR 0x87, CHR 0x9D, CHR 0xE5, CHR 0xB0, CHR 0x8D,
      CHR 0xE4, CHR 0xB8, CHR 0xBB, CHR 0xE9, CHR 0xA1, CHR 0x8C, CHR 0xEF, CHR 0xBC, CHR 0x9A,
      CHR 0xE3, CHR 0x80, CHR 0x8C]"

definition userQuery_suffix :: string where
  "userQuery_suffix =
     [CHR 0xE3, CHR 0x80, CHR 0x8D, CHR 0xEF, CHR 0xBC, CHR 0x8C, CHR 0xE7, CHR 0x94, CHR 0x9F,
      CHR 0xE6, CHR 0x88, CHR 0x90] @
     ''10'' @
     [CHR 0xE5, CHR 0x80, CHR 0x8B, CHR 0xE8, CHR 0xA1, CHR 0x8C, CHR 0xE7, CHR 0x82, CHR 0xBA,
      CHR 0xE5, CHR 0x8F, CHR 0x8A, CHR 0xE6, CHR 0xAF, CHR 0x8F, CHR 0xE5, CHR 0x80, CHR 0x8B,
      CHR 0xE8, CHR 0xA1, CHR 0x8C, CHR 0xE7, CHR 0x82, CHR 0xBA, CHR 0xE4, CHR 0xB8, CHR 0x8B] @
     ''8-10'' @
     [CHR 0xE5, CHR 0x80, CHR 0x8B, CHR 0xE7, CHR 0xB2, CHR 0xBE, CHR 0xE6, CHR 0xBA, CHR 0x96,
      CHR 0xE5, CHR 0x8F, CHR 0x97, CHR 0xE7, CHR 0x9C, CHR 0xBE, CHR 0xE3, CHR 0x80, CHR 0x82]"

definition behavior_description :: string where
  "behavior_description =
     [CHR 0xE8, CHR 0x88, CHR 0x87, CHR 0xE7, CHR 0x94, CHR 0xA2, CHR 0xE5, CHR 0x93, CHR 0x81,
      CHR 0xE4, CHR 0xB8, CHR 0xBB, CHR 0xE9, CHR 0xA1, CHR 0x8C, CHR 0xE7, CHR 0x9B, CHR 0xB8,
      CHR 0xE9, CHR 0x97, CHR 0x9C, CHR 0xE7, CHR 0x9A, CHR 0x84, CHR 0xE5, CHR 0x85, CHR 0xB7,
      CHR 0xE9, CHR 0xAB, CHR 0x94, CHR 0xE7, CHR 0x94, CHR 0xA8, CHR 0xE6, CHR 0x88, CHR 0xB6,
      CHR 0xE8, CHR 0xA1, CHR 0x8C, CHR 0xE7, CHR 0x82, CHR 0xBA]"

definition audiences_description :: string where
  "audiences_description =
     [CHR 0xE5, CHR 0xB0, CHR 0x8D, CHR 0xE6, CHR 0xAD, CHR 0xA4, CHR 0xE8, CHR 0xA1, CHR 0x8C,
      CHR 0xE7, CHR 0x82, CHR 0xBA, CHR 0xE6, CHR 0x84, CHR 0x9F, CHR 0xE8, CHR 0x88, CHR 0x88,
      CHR 0xE8, CHR 0xB6, CHR 0xA3, CHR 0xE7, CHR 0x9A, CHR 0x84] @
     ''8-10'' @
     [CHR 0xE5, CHR 0x80, CHR 0x8B, CHR 0xE7, CHR 0xB2, CHR 0xBE, CHR 0xE6, CHR 0xBA, CHR 0x96,
      CHR 0xE5, CHR 0x8F, CHR 0x97, CHR 0xE7, CHR 0x9C, CHR 0xBE, CHR 0xE8, CHR 0xBC, CHR 0xAA,
      CHR 0xE5, CHR 0xBB, CHR 0x93, CHR 0xEF, CHR 0xBC, CHR 0x8C, CHR 0xE5, CHR 0xBF, CHR 0x85,
      CHR 0xE9, CHR 0xA0, CHR 0x88, CHR 0xE5, CHR 0x8C, CHR 0x85, CHR 0xE5, CHR 0x90, CHR 0xAB,
      CHR 0xE6, CHR 0xA8, CHR 0x99, CHR 0xE7, CHR 0xB1, CHR 0xA4, CHR 0xE5, CHR 0x92, CHR 0x8C,
      CHR 0xE8, CHR 0xA6, CHR 0x8F, CHR 0xE6, CHR 0xA8, CHR 0xA1]"

definition log_gemini_error :: string where
  "log_gemini_error =
     ''Gemini API '' @
     [CHR 0xE9, CHR 0x8C, CHR 0xAF, CHR 0xE8, CHR 0xAA, CHR 0xA4] @
     '':''"

definition msg_gemini_failed :: string where
  "msg_gemini_failed =
     ''Gemini API '' @
     [CHR 0xE8, CHR 0xAB, CHR 0x8B, CHR 0xE6, CHR 0xB1, CHR 0x82, CHR 0xE5, CHR 0xA4, CHR 0xB1,
      CHR 0xE6, CHR 0x95, CHR 0x97, CHR 0xEF, CHR 0xBC, CHR 0x8C, CHR 0xE7, CHR 0x8B, CHR 0x80,
      CHR 0xE6, CHR 0x85, CHR 0x8B, CHR 0xE7, CHR 0xA2, CHR 0xBC] @
     '': ''"

definition log_proxy_error :: string where
  "log_proxy_error =
     [CHR 0xE5, CHR 0xBE, CHR 0x8C, CHR 0xE7, CHR 0xAB, CHR 0xAF, CHR 0xE4, CHR 0xBB, CHR 0xA3,
      CHR 0xE7, CHR 0x90, CHR 0x86, CHR 0xE7, CHR 0x99, CHR 0xBC, CHR 0xE7, CHR 0x94, CHR 0x9F,
      CHR 0xE9, CHR 0x8C, CHR 0xAF, CHR 0xE8, CHR 0xAA, CHR 0xA4] @
     '':''"

definition msg_internal_error :: string where
  "msg_internal_error =
     [CHR 0xE5, CHR 0xBE, CHR 0x8C, CHR 0xE7, CHR 0xAB, CHR 0xAF, CHR 0xE4, CHR 0xBC, CHR 0xBA,
      CHR 0xE6, CHR 0x9C, CHR 0x8D, CHR 0xE5, CHR 0x99, CHR 0xA8, CHR 0xE7, CHR 0x99, CHR 0xBC,
      CHR 0xE7, CHR 0x94, CHR 0x9F, CHR 0xE5, CHR 0x85, CHR 0xA7, CHR 0xE9, CHR 0x83, CHR 0xA8,
      CHR 0xE9, CHR 0x8C, CHR 0xAF, CHR 0xE8, CHR 0xAA, CHR 0xA4]"

definition modelName :: string where
  "modelName = ''gemini-2.5-flash-preview-05-20''"

section \<open>The handler\<close>

text \<open>
  \<^verbatim>\<open>const { topic } = request.body\<close>: destructuring undefined or null throws a TypeError
  (the message is the engine's, here V8's); an object gives its own property or
  undefined; a primitive or an array has no such property.
\<close>

definition destructure_error :: "string \<Rightarrow> js_error" where
  "destructure_error what =
     JsError ''TypeError''
       (''Cannot destructure property '' @ [CHR 0x27] @ ''topic'' @ [CHR 0x27] @ '' of '' @
        [CHR 0x27] @ ''request.body'' @ [CHR 0x27] @ '' as it is '' @ what @ ''.'')"

fun destructure_topic :: "jsval \<Rightarrow> js_error + jsval" where
  "destructure_topic JUndefined = Inl (destructure_error ''undefined'')"
| "destructure_topic JNull = Inl (destructure_error ''null'')"
| "destructure_topic (JObj kvs) = Inr (get_prop kvs ''topic'')"
| "destructure_topic v = Inr JUndefined"

definition apiUrl :: "string \<Rightarrow> string" where
  "apiUrl apiKey =
     ''https://generativelanguage.googleapis.com/v1beta/models/'' @ modelName @
     '':generateContent?key='' @ apiKey"

definition userQuery :: "string \<Rightarrow> string" where
  "userQuery topic = userQuery_prefix @ topic @ userQuery_suffix"

definition responseSchema :: jsval where
  "responseSchema =
     JObj [(''type'', JStr ''ARRAY''),
           (''items'', JObj
              [(''type'', JStr ''OBJECT''),
               (''properties'', JObj
                  [(''behavior'', JObj [(''type'', JStr ''STRING''),
                                        (''description'', JStr behavior_description)]),
                   (''audiences'', JObj
                      [(''type'', JStr ''ARRAY''),
                       (''items'', JObj [(''type'', JStr ''STRING''),
                                         (''description'', JStr audiences_description)])])]),
               (''required'', JArr [JStr ''behavior'', JStr ''audiences''])])]"

definition payload :: "string \<Rightarrow> jsval" where
  "payload topic =
     JObj [(''contents'', JArr [JObj [(''parts'', JArr [JObj [(''text'', JStr (userQuery topic))]])]]),
           (''systemInstruction'', JObj [(''parts'', JArr [JObj [(''text'', JStr systemPrompt)]])]),
           (''generationConfig'', JObj
              [(''responseMimeType'', JStr ''application/json''),
               (''responseSchema'', responseSchema)])]"

definition fetchInit :: "string \<Rightarrow> fetch_init" where
  "fetchInit topic =
     \<lparr>init_method = ''POST'',
      init_headers = [(''Content-Type'', ''application/json'')],
      init_body = stringify (payload topic)\<rparr>"

text \<open>
  A block of the handler gives the effects it performed and how it ended: \<open>Inr ()\<close>
  when it completed or returned, \<open>Inl e\<close> when it threw \<open>e\<close>.
\<close>

type_synonym outcome = "effect list \<times> (js_error + unit)"

text \<open>Lines 56 to 73: the upstream call and the translation of its result.\<close>

definition call_upstream :: "platform \<Rightarrow> string \<Rightarrow> string \<Rightarrow> outcome" where
  "call_upstream w apiKey topic =
     (let url = apiUrl apiKey; init = fetchInit topic in
      case fetch w url init of
        Inl e \<Rightarrow> ([Fetch url init], Inl e)
      | Inr geminiResponse \<Rightarrow>
          if \<not> ok geminiResponse then
            (case text_result geminiResponse of
               Inl e \<Rightarrow> ([Fetch url init], Inl e)
             | Inr errorText \<Rightarrow>
                 ([Fetch url init, ConsoleError [LogText log_gemini_error, LogText errorText]],
                  Inl (JsError ''Error'' (msg_gemini_failed @ decimal (status geminiResponse)))))
          else
            (case json_result geminiResponse of
               Inl e \<Rightarrow> ([Fetch url init], Inl e)
             | Inr data \<Rightarrow> ([Fetch url init, Respond 200 data], Inr ())))"

text \<open>Lines 19 to 24: the branch taken when the credential is undefined or empty.\<close>

definition key_missing :: outcome where
  "key_missing =
     ([ConsoleError [LogText log_key_missing],
       Respond 500 (JObj [(''error'', JStr msg_key_missing)])], Inr ())"

text \<open>Lines 11 to 73: the body of the \<^verbatim>\<open>try\<close>.\<close>

definition try_block :: "platform \<Rightarrow> request \<Rightarrow> outcome" where
  "try_block w request =
     (case destructure_topic (req_body request) of
        Inl e \<Rightarrow> ([], Inl e)
      | Inr topic \<Rightarrow>
          if \<not> truthy topic then
            ([Respond 400 (JObj [(''error'', JStr msg_topic_required)])], Inr ())
          else
            (case process_env w ''GEMINI_API_KEY'' of
               None \<Rightarrow> key_missing
             | Some apiKey \<Rightarrow>
                 if apiKey = [] then key_missing
                 else
                   (case to_string topic of
                      Inl e \<Rightarrow> ([], Inl e)
                    | Inr shown \<Rightarrow> call_upstream w apiKey shown)))"

text \<open>Lines 75 to 78: the \<^verbatim>\<open>catch\<close>.\<close>

definition catch_block :: "js_error \<Rightarrow> effect list" where
  "catch_block error =
     [ConsoleError [LogText log_proxy_error, LogErr error],
      Respond 500 (JObj [(''error'', JStr msg_internal_error),
                         (''details'', JStr (message error))])]"

text \<open>The handler: the effects of one run, in order.\<close>

definition handler :: "platform \<Rightarrow> request \<Rightarrow> effect list" where
  "handler w request =
     (if req_method request \<noteq> ''POST'' then
        [Respond 405 (JObj [(''error'', JStr ''Method Not Allowed'')])]
      else
        (case try_block w request of
           (effects, Inr u) \<Rightarrow> effects
         | (effects, Inl error) \<Rightarrow> effects @ catch_block error))"

section \<open>Observing a run\<close>

text \<open>The HTTP responses of a run (status and body) and its outbound calls (URL and init).\<close>

fun responses :: "effect list \<Rightarrow> (nat \<times> jsval) list" where
  "responses [] = []"
| "responses (Respond code body # es) = (code, body) # responses es"
| "responses (e # es) = responses es"

fun fetches :: "effect list \<Rightarrow> (string \<times> fetch_init) list" where
  "fetches [] = []"
| "fetches (Fetch url init # es) = (url, init) # fetches es"
| "fetches (e # es) = fetches es"

text \<open>
  Reading inside a value: the value reached from an object along a path of property
  names, and the own property names of an object, in order.
\<close>

fun at_path :: "jsval \<Rightarrow> string list \<Rightarrow> jsval" where
  "at_path v [] = v"
| "at_path (JObj kvs) (k # ks) = at_path (get_prop kvs k) ks"
| "at_path v (k # ks) = JUndefined"

fun own_keys :: "jsval \<Rightarrow> string list" where
  "own_keys (JObj kvs) = map fst kvs"
| "own_keys v = []"

section \<open>Sample inputs\<close>

text \<open>
  A platform whose environment holds the given credential (or none) and whose upstream
  call always ends the given way; a POST carrying the topic of the specification's
  example; a well-formed upstream answer.
\<close>

definition sample_platform :: "string option \<Rightarrow> js_error + fetch_response \<Rightarrow> platform" where
  "sample_platform key upstream =
     \<lparr>process_env = (\<lambda>name. if name = ''GEMINI_API_KEY'' then key else None),
      fetch = (\<lambda>url init. upstream)\<rparr>"

definition sample_topic :: string where
  "sample_topic =
     [CHR 0xE7, CHR 0xB7, CHR 0x9A, CHR 0xE4, CHR 0xB8, CHR 0x8A, CHR 0xE8, CHR 0x8B, CHR 0xB1,
      CHR 0xE8, CHR 0xAA, CHR 0x9E, CHR 0xE8, CHR 0xAA, CHR 0xB2, CHR 0xE7, CHR 0xA8, CHR 0x8B]"

definition sample_post :: request where
  "sample_post = \<lparr>req_method = ''POST'', req_body = JObj [(''topic'', JStr sample_topic)]\<rparr>"

definition sample_data :: jsval where
  "sample_data =
     JArr [JObj [(''behavior'', JStr ''b''), (''audiences'', JArr [JStr ''a1'', JStr ''a2''])]]"

text \<open>
  An upstream answer whose body is the serialisation of a JSON value, and one whose body
  is plain text, on which \<^verbatim>\<open>json()\<close> throws.
\<close>

definition json_response :: "nat \<Rightarrow> jsval \<Rightarrow> fetch_response" where
  "json_response code v =
     \<lparr>status = code,
      text_result = Inr (case stringify v of None \<Rightarrow> [] | Some s \<Rightarrow> s),
      json_result = Inr v\<rparr>"

definition not_json :: js_error where
  "not_json = JsError ''SyntaxError'' ''Unexpected token < in JSON at position 0''"

definition text_response :: "nat \<Rightarrow> string \<Rightarrow> fetch_response" where
  "text_response code body = \<lparr>status = code, text_result = Inr body, json_result = Inl not_json\<rparr>"

section \<open>Helper facts\<close>

lemma handler_post:
  assumes "req_method request = ''POST''"
  shows "handler w request =
           (case try_block w request of
              (effects, Inr u) \<Rightarrow> effects
            | (effects, Inl error) \<Rightarrow> effects @ catch_block error)"
  using assms by (simp add: handler_def)

lemma try_block_valid:
  assumes "destructure_topic (req_body request) = Inr (JStr topic)"
    and "topic \<noteq> []"
    and "process_env w ''GEMINI_API_KEY'' = Some apiKey"
    and "apiKey \<noteq> []"
  shows "try_block w request = call_upstream w apiKey topic"
  using assms by (simp add: try_block_def)

lemma fetches_call_upstream:
  "fetches (fst (call_upstream w apiKey topic)) = [(apiUrl apiKey, fetchInit topic)]"
  by (simp add: call_upstream_def Let_def split: sum.splits)

lemma fetches_append: "fetches (xs @ ys) = fetches xs @ fetches ys"
  by (induction xs rule: fetches.induct) simp_all

lemma responses_append: "responses (xs @ ys) = responses xs @ responses ys"
  by (induction xs rule: responses.induct) simp_all

lemma fetches_catch_block: "fetches (catch_block e) = []"
  by (simp add: catch_block_def)

lemma sample_destructure:
  "destructure_topic (req_body sample_post) = Inr (JStr sample_topic)"
  by (simp add: sample_post_def get_prop_def)

lemma sample_topic_nonempty: "sample_topic \<noteq> []"
  by (simp add: sample_topic_def)

lemma sample_post_method: "req_method sample_post = ''POST''"
  by (simp add: sample_post_def)

lemma sample_env: "process_env (sample_platform key upstream) ''GEMINI_API_KEY'' = key"
  by (simp add: sample_platform_def)

lemma sample_fetch: "fetch (sample_platform key upstream) url init = upstream"
  by (simp add: sample_platform_def)

lemma fetches_handler_post:
  assumes "req_method request = ''POST''"
  shows "fetches (handler w request) = fetches (fst (try_block w request))"
proof (cases "try_block w request")
  case (Pair effects ending)
  then show ?thesis
    using assms
    by (cases ending) (simp_all add: handler_post fetches_append fetches_catch_block)
qed

lemma responses_call_upstream:
  "length (responses (fst (call_upstream w apiKey topic))) =
     (case snd (call_upstream w apiKey topic) of Inl e \<Rightarrow> 0 | Inr u \<Rightarrow> 1)"
  by (simp add: call_upstream_def Let_def split: sum.splits)

lemma responses_try_block:
  "length (responses (fst (try_block w request))) =
     (case snd (try_block w request) of Inl e \<Rightarrow> 0 | Inr u \<Rightarrow> 1)"
proof (cases "destructure_topic (req_body request)")
  case (Inl e)
  then show ?thesis
    by (simp add: try_block_def)
next
  case (Inr topic)
  show ?thesis
  proof (cases "truthy topic")
    case False
    with Inr show ?thesis
      by (simp add: try_block_def)
  next
    case True
    show ?thesis
    proof (cases "process_env w ''GEMINI_API_KEY''")
      case None
      with Inr True show ?thesis
        by (simp add: try_block_def key_missing_def)
    next
      case (Some apiKey)
      show ?thesis
      proof (cases "apiKey = []")
        case True
        with Inr \<open>truthy topic\<close> Some show ?thesis
          by (simp add: try_block_def key_missing_def)
      next
        case False
        with Inr \<open>truthy topic\<close> Some show ?thesis
          by (cases "to_string topic") (simp_all add: try_block_def responses_call_upstream)
      qed
    qed
  qed
qed

lemma fetches_try_block_le: "length (fetches (fst (try_block w request))) \<le> 1"
  by (simp add: try_block_def key_missing_def fetches_call_upstream
        split: sum.splits option.splits)

text \<open>None of the handler's fixed strings holds a character that JSON escapes.\<close>

lemma escape_systemPrompt: "concat (map escape_char systemPrompt) = systemPrompt"
  by (simp add: systemPrompt_def escape_char_def)

lemma escape_userQuery_prefix: "concat (map escape_char userQuery_prefix) = userQuery_prefix"
  by (simp add: userQuery_prefix_def escape_char_def)

lemma escape_userQuery_suffix: "concat (map escape_char userQuery_suffix) = userQuery_suffix"
  by (simp add: userQuery_suffix_def escape_char_def)

lemma escape_behavior_description:
  "concat (map escape_char behavior_description) = behavior_description"
  by (simp add: behavior_description_def escape_char_def)

lemma escape_audiences_description:
  "concat (map escape_char audiences_description) = audiences_description"
  by (simp add: audiences_description_def escape_char_def)

lemma quote_userQuery:
  "quote (userQuery topic) =
     [CHR 0x22] @ userQuery_prefix @ concat (map escape_char topic) @ userQuery_suffix @ [CHR 0x22]"
  by (simp add: quote_def userQuery_def escape_userQuery_prefix escape_userQuery_suffix)

lemma quote_fixed:
  "quote systemPrompt = [CHR 0x22] @ systemPrompt @ [CHR 0x22]"
  "quote behavior_description = [CHR 0x22] @ behavior_description @ [CHR 0x22]"
  "quote audiences_description = [CHR 0x22] @ audiences_description @ [CHR 0x22]"
  by (simp_all add: quote_def escape_systemPrompt escape_behavior_description
        escape_audiences_description)

lemma quote_keys:
  "quote ''contents'' = [CHR 0x22] @ ''contents'' @ [CHR 0x22]"
  "quote ''parts'' = [CHR 0x22] @ ''parts'' @ [CHR 0x22]"
  "quote ''text'' = [CHR 0x22] @ ''text'' @ [CHR 0x22]"
  "quote ''systemInstruction'' = [CHR 0x22] @ ''systemInstruction'' @ [CHR 0x22]"
  "quote ''generationConfig'' = [CHR 0x22] @ ''generationConfig'' @ [CHR 0x22]"
  "quote ''responseMimeType'' = [CHR 0x22] @ ''responseMimeType'' @ [CHR 0x22]"
  "quote ''application/json'' = [CHR 0x22] @ ''application/json'' @ [CHR 0x22]"
  "quote ''responseSchema'' = [CHR 0x22] @ ''responseSchema'' @ [CHR 0x22]"
  "quote ''type'' = [CHR 0x22] @ ''type'' @ [CHR 0x22]"
  "quote ''ARRAY'' = [CHR 0x22] @ ''ARRAY'' @ [CHR 0x22]"
  "quote ''OBJECT'' = [CHR 0x22] @ ''OBJECT'' @ [CHR 0x22]"
  "quote ''STRING'' = [CHR 0x22] @ ''STRING'' @ [CHR 0x22]"
  "quote ''items'' = [CHR 0x22] @ ''items'' @ [CHR 0x22]"
  "quote ''properties'' = [CHR 0x22] @ ''properties'' @ [CHR 0x22]"
  "quote ''behavior'' = [CHR 0x22] @ ''behavior'' @ [CHR 0x22]"
  "quote ''audiences'' = [CHR 0x22] @ ''audiences'' @ [CHR 0x22]"
  "quote ''description'' = [CHR 0x22] @ ''description'' @ [CHR 0x22]"
  "quote ''required'' = [CHR 0x22] @ ''required'' @ [CHR 0x22]"
  by (simp_all add: quote_def escape_char_def)

lemma stringify_payload:
  \<open>stringify (payload topic) =
     Some (''{"contents":[{"parts":[{"text":"'' @ userQuery_prefix @
           concat (map escape_char topic) @ userQuery_suffix @
           ''"}]}],"systemInstruction":{"parts":[{"text":"'' @ systemPrompt @
           ''"}]},"generationConfig":{"responseMimeType":"application/json","responseSchema":'' @
           ''{"type":"ARRAY","items":{"type":"OBJECT","properties":{"behavior":'' @
           ''{"type":"STRING","description":"'' @ behavior_description @
           ''"},"audiences":{"type":"ARRAY","items":{"type":"STRING","description":"'' @
           audiences_description @ ''"}}},"required":["behavior","audiences"]}}}}'')\<close>
  by (simp add: payload_def responseSchema_def quote_userQuery quote_fixed quote_keys)

lemma audiences_descriptor:
  "at_path (payload topic)
     [''generationConfig'', ''responseSchema'', ''items'', ''properties'', ''audiences''] =
   JObj [(''type'', JStr ''ARRAY''),
         (''items'', JObj [(''type'', JStr ''STRING''),
                           (''description'', JStr audiences_description)])]"
  by (simp add: payload_def responseSchema_def get_prop_def)

section \<open>The claims\<close>

text \<open>
  C1. For a POST with a non-empty topic and a configured credential, when the upstream
  call answers with a success status and its body parses as the JSON value \<open>data\<close>, the
  run is the one outbound call followed by the response 200 whose body is \<open>data\<close> itself,
  whatever \<open>data\<close> is: nothing is reshaped, filtered or checked.
\<close>

theorem success_relays_upstream_json:
  assumes "req_method request = ''POST''"
    and "destructure_topic (req_body request) = Inr (JStr topic)"
    and "topic \<noteq> []"
    and "process_env w ''GEMINI_API_KEY'' = Some apiKey"
    and "apiKey \<noteq> []"
    and "fetch w (apiUrl apiKey) (fetchInit topic) = Inr geminiResponse"
    and "ok geminiResponse"
    and "json_result geminiResponse = Inr data"
  shows "handler w request = [Fetch (apiUrl apiKey) (fetchInit topic), Respond 200 data]"
proof -
  have "try_block w request = call_upstream w apiKey topic"
    using assms(2-5) by (rule try_block_valid)
  also have "\<dots> = ([Fetch (apiUrl apiKey) (fetchInit topic), Respond 200 data], Inr ())"
    using assms(6-8) by (simp add: call_upstream_def)
  finally show ?thesis
    using assms(1) by (simp add: handler_post)
qed

theorem success_relays_upstream_json_witness:
  "handler (sample_platform (Some ''secret'') (Inr (json_response 200 sample_data))) sample_post
   = [Fetch (apiUrl ''secret'') (fetchInit sample_topic), Respond 200 sample_data]"
  using success_relays_upstream_json
          [of sample_post sample_topic
              "sample_platform (Some ''secret'') (Inr (json_response 200 sample_data))"
              "''secret''" "json_response 200 sample_data" sample_data]
  by (simp add: sample_destructure sample_topic_nonempty sample_post_method sample_env
        sample_fetch ok_def json_response_def)

text \<open>
  C2. For a POST with a non-empty topic and a configured credential, when the upstream
  call answers with a status outside 200..299 (429 or 500, say), the run ends with the
  single response 500 whose body has the generic \<^verbatim>\<open>error\<close> and a \<^verbatim>\<open>details\<close> string.
  When the upstream body reads as \<open>errorText\<close>, the run is: the outbound call, a log line
  carrying \<open>errorText\<close>, the log line of the catch, and that response, whose \<^verbatim>\<open>details\<close> is
  a message built from the status alone and is not empty. Whatever text the upstream body
  holds, the response is this same one: the upstream body reaches the log only.
\<close>

theorem upstream_failure_is_generic_500:
  assumes "req_method request = ''POST''"
    and "destructure_topic (req_body request) = Inr (JStr topic)"
    and "topic \<noteq> []"
    and "process_env w ''GEMINI_API_KEY'' = Some apiKey"
    and "apiKey \<noteq> []"
    and "fetch w (apiUrl apiKey) (fetchInit topic) = Inr geminiResponse"
    and "\<not> ok geminiResponse"
  shows "(\<exists>details.
            responses (handler w request) =
              [(500, JObj [(''error'', JStr msg_internal_error), (''details'', JStr details)])])
         \<and> (\<forall>errorText. text_result geminiResponse = Inr errorText \<longrightarrow>
              handler w request =
                [Fetch (apiUrl apiKey) (fetchInit topic),
                 ConsoleError [LogText log_gemini_error, LogText errorText],
                 ConsoleError [LogText log_proxy_error,
                   LogErr (JsError ''Error''
                     (msg_gemini_failed @ decimal (status geminiResponse)))],
                 Respond 500
                   (JObj [(''error'', JStr msg_internal_error),
                          (''details'',
                           JStr (msg_gemini_failed @ decimal (status geminiResponse)))])]
              \<and> msg_gemini_failed @ decimal (status geminiResponse) \<noteq> [])
         \<and> (\<forall>otherText.
              responses (handler
                 (w\<lparr>fetch := \<lambda>url init. Inr (geminiResponse\<lparr>text_result := Inr otherText\<rparr>)\<rparr>)
                 request) =
                [(500, JObj [(''error'', JStr msg_internal_error),
                             (''details'',
                              JStr (msg_gemini_failed @ decimal (status geminiResponse)))])])"
proof -
  let ?failure = "JsError ''Error'' (msg_gemini_failed @ decimal (status geminiResponse))"
  have run: "handler v request =
               [Fetch (apiUrl apiKey) (fetchInit topic),
                ConsoleError [LogText log_gemini_error, LogText body],
                ConsoleError [LogText log_proxy_error, LogErr ?failure],
                Respond 500 (JObj [(''error'', JStr msg_internal_error),
                                   (''details'', JStr (message ?failure))])]"
    if env: "process_env v ''GEMINI_API_KEY'' = Some apiKey"
      and up: "fetch v (apiUrl apiKey) (fetchInit topic) = Inr r"
      and st: "status r = status geminiResponse"
      and body: "text_result r = Inr body"
    for v r body
  proof -
    have "\<not> ok r"
      using assms(7) st by (simp add: ok_def)
    moreover have "try_block v request = call_upstream v apiKey topic"
      using assms(2,3) env assms(5) by (rule try_block_valid)
    ultimately have "try_block v request =
        ([Fetch (apiUrl apiKey) (fetchInit topic),
          ConsoleError [LogText log_gemini_error, LogText body]], Inl ?failure)"
      using up st body by (simp add: call_upstream_def)
    then show ?thesis
      using assms(1) by (simp add: handler_post catch_block_def)
  qed
  have unread: "handler w request =
                  [Fetch (apiUrl apiKey) (fetchInit topic),
                   ConsoleError [LogText log_proxy_error, LogErr e],
                   Respond 500 (JObj [(''error'', JStr msg_internal_error),
                                      (''details'', JStr (message e))])]"
    if "text_result geminiResponse = Inl e" for e
  proof -
    have "try_block w request = call_upstream w apiKey topic"
      using assms(2-5) by (rule try_block_valid)
    then have "try_block w request = ([Fetch (apiUrl apiKey) (fetchInit topic)], Inl e)"
      using assms(6,7) that by (simp add: call_upstream_def)
    then show ?thesis
      using assms(1) by (simp add: handler_post catch_block_def)
  qed
  have always: "\<exists>details.
      responses (handler w request) =
        [(500, JObj [(''error'', JStr msg_internal_error), (''details'', JStr details)])]"
  proof (cases "text_result geminiResponse")
    case (Inl e)
    then show ?thesis
      by (simp add: unread)
  next
    case (Inr errorText)
    with assms(4,6) have "handler w request =
        [Fetch (apiUrl apiKey) (fetchInit topic),
         ConsoleError [LogText log_gemini_error, LogText errorText],
         ConsoleError [LogText log_proxy_error, LogErr ?failure],
         Respond 500 (JObj [(''error'', JStr msg_internal_error),
                            (''details'', JStr (message ?failure))])]"
      by (intro run [where r = geminiResponse]) simp_all
    then show ?thesis
      by simp
  qed
  have readable: "handler w request =
      [Fetch (apiUrl apiKey) (fetchInit topic),
       ConsoleError [LogText log_gemini_error, LogText errorText],
       ConsoleError [LogText log_proxy_error, LogErr ?failure],
       Respond 500 (JObj [(''error'', JStr msg_internal_error),
                          (''details'', JStr (msg_gemini_failed @ decimal (status geminiResponse)))])]
      \<and> msg_gemini_failed @ decimal (status geminiResponse) \<noteq> []"
    if "text_result geminiResponse = Inr errorText" for errorText
    using run [of w geminiResponse errorText] assms(4,6) that
    by (simp add: msg_gemini_failed_def)
  have same: "responses (handler
                 (w\<lparr>fetch := \<lambda>url init. Inr (geminiResponse\<lparr>text_result := Inr otherText\<rparr>)\<rparr>)
                 request) =
                [(500, JObj [(''error'', JStr msg_internal_error),
                             (''details'',
                              JStr (msg_gemini_failed @ decimal (status geminiResponse)))])]"
    for otherText
    using run [of "w\<lparr>fetch := \<lambda>url init. Inr (geminiResponse\<lparr>text_result := Inr otherText\<rparr>)\<rparr>"
                  "geminiResponse\<lparr>text_result := Inr otherText\<rparr>" otherText] assms(4)
    by simp
  from always readable same show ?thesis
    by blast
qed

theorem upstream_failure_is_generic_500_witness:
  "handler (sample_platform (Some ''secret'') (Inr (text_response 429 ''quota exceeded'')))
     sample_post =
     [Fetch (apiUrl ''secret'') (fetchInit sample_topic),
      ConsoleError [LogText log_gemini_error, LogText ''quota exceeded''],
      ConsoleError [LogText log_proxy_error,
        LogErr (JsError ''Error'' (msg_gemini_failed @ decimal 429))],
      Respond 500
        (JObj [(''error'', JStr msg_internal_error),
               (''details'', JStr (msg_gemini_failed @ decimal 429))])]
   \<and> msg_gemini_failed @ decimal 429 \<noteq> []"
  using upstream_failure_is_generic_500
          [of sample_post sample_topic
              "sample_platform (Some ''secret'') (Inr (text_response 429 ''quota exceeded''))"
              "''secret''" "text_response 429 ''quota exceeded''"]
  by (simp add: sample_destructure sample_topic_nonempty sample_post_method sample_env
        sample_fetch ok_def text_response_def)

text \<open>
  C3. For a POST with a non-empty topic, when the environment holds no
  \<^verbatim>\<open>GEMINI_API_KEY\<close>, the run is one log line with a fixed text and the response 500 whose
  body is the one field \<^verbatim>\<open>error\<close> with a fixed message: no \<^verbatim>\<open>details\<close>, nothing read
  from the environment, and no outbound call.
\<close>

theorem missing_credential_is_500:
  assumes "req_method request = ''POST''"
    and "destructure_topic (req_body request) = Inr (JStr topic)"
    and "topic \<noteq> []"
    and "process_env w ''GEMINI_API_KEY'' = None"
  shows "handler w request =
           [ConsoleError [LogText log_key_missing],
            Respond 500 (JObj [(''error'', JStr msg_key_missing)])]"
  using assms by (simp add: handler_post try_block_def key_missing_def)

theorem missing_credential_is_500_witness:
  "handler (sample_platform None (Inr (json_response 200 sample_data))) sample_post =
     [ConsoleError [LogText log_key_missing],
      Respond 500 (JObj [(''error'', JStr msg_key_missing)])]"
  using missing_credential_is_500
          [of sample_post sample_topic
              "sample_platform None (Inr (json_response 200 sample_data))"]
  by (simp add: sample_destructure sample_topic_nonempty sample_post_method sample_env)

text \<open>
  C4. For a POST whose body is an object in which \<^verbatim>\<open>topic\<close> is absent, null or the
  empty string, the run is the single response 400 with the body
  \<^verbatim>\<open>{error: <required-field message>}\<close>.
\<close>

theorem missing_topic_is_400:
  assumes "req_method request = ''POST''"
    and "req_body request = JObj kvs"
    and "map_of kvs ''topic'' = None \<or> map_of kvs ''topic'' = Some JNull
           \<or> map_of kvs ''topic'' = Some (JStr [])"
  shows "handler w request = [Respond 400 (JObj [(''error'', JStr msg_topic_required)])]"
  using assms by (auto simp: handler_post try_block_def get_prop_def)

theorem missing_topic_is_400_witness:
  "handler (sample_platform (Some ''secret'') (Inr (json_response 200 sample_data)))
     \<lparr>req_method = ''POST'', req_body = JObj [(''topic'', JStr [])]\<rparr>
   = [Respond 400 (JObj [(''error'', JStr msg_topic_required)])]"
  using missing_topic_is_400
          [of "\<lparr>req_method = ''POST'', req_body = JObj [(''topic'', JStr [])]\<rparr>"
              "[(''topic'', JStr [])]"
              "sample_platform (Some ''secret'') (Inr (json_response 200 sample_data))"]
  by simp

text \<open>
  C5. For a request whose method is not POST, the run is the single response 405 with
  the body \<^verbatim>\<open>{error: "Method Not Allowed"}\<close>; it holds no outbound call.
\<close>

theorem wrong_method_is_405:
  assumes "req_method request \<noteq> ''POST''"
  shows "handler w request = [Respond 405 (JObj [(''error'', JStr ''Method Not Allowed'')])]
         \<and> fetches (handler w request) = []"
  using assms by (simp add: handler_def)

theorem wrong_method_is_405_witness:
  "handler (sample_platform (Some ''secret'') (Inr (json_response 200 sample_data)))
     (sample_post\<lparr>req_method := ''GET''\<rparr>)
   = [Respond 405 (JObj [(''error'', JStr ''Method Not Allowed'')])]
   \<and> fetches (handler (sample_platform (Some ''secret'') (Inr (json_response 200 sample_data)))
        (sample_post\<lparr>req_method := ''GET''\<rparr>)) = []"
  using wrong_method_is_405
          [of "sample_post\<lparr>req_method := ''GET''\<rparr>"
              "sample_platform (Some ''secret'') (Inr (json_response 200 sample_data))"]
  by simp

text \<open>
  C6, as amended. For a POST with a non-empty topic and a configured credential, whatever
  the upstream then does, the run holds exactly one outbound call. Its URL is the fixed
  endpoint followed by \<^verbatim>\<open>?key=\<close> and the credential. Its method is POST, its one
  header the JSON content type, and its body the JSON text of an object holding the user
  query (the topic, escaped as JSON does, between a fixed prefix and a fixed suffix), the
  system instruction (a constant), and the response schema: an array of objects with the
  properties \<^verbatim>\<open>behavior\<close>, a string, and \<^verbatim>\<open>audiences\<close>, an array of strings, both
  required. The descriptor of \<^verbatim>\<open>audiences\<close> has the properties \<^verbatim>\<open>type\<close> and \<^verbatim>\<open>items\<close>
  only: it sets no \<^verbatim>\<open>minItems\<close> and no \<^verbatim>\<open>maxItems\<close>. The count of 8 to 10 stands in
  the description of the audience strings, as words for the upstream model.
\<close>

theorem outbound_request_shape:
  assumes "req_method request = ''POST''"
    and "destructure_topic (req_body request) = Inr (JStr topic)"
    and "topic \<noteq> []"
    and "process_env w ''GEMINI_API_KEY'' = Some apiKey"
    and "apiKey \<noteq> []"
  shows \<open>fetches (handler w request) = [(apiUrl apiKey, fetchInit topic)]
         \<and> apiUrl apiKey =
             ''https://generativelanguage.googleapis.com/v1beta/models/gemini-2.5-flash-preview-05-20:generateContent?key=''
             @ apiKey
         \<and> fetchInit topic =
             \<lparr>init_method = ''POST'',
              init_headers = [(''Content-Type'', ''application/json'')],
              init_body =
                Some (''{"contents":[{"parts":[{"text":"'' @ userQuery_prefix @
                      concat (map escape_char topic) @ userQuery_suffix @
                      ''"}]}],"systemInstruction":{"parts":[{"text":"'' @ systemPrompt @
                      ''"}]},"generationConfig":{"responseMimeType":"application/json","responseSchema":'' @
                      ''{"type":"ARRAY","items":{"type":"OBJECT","properties":{"behavior":'' @
                      ''{"type":"STRING","description":"'' @ behavior_description @
                      ''"},"audiences":{"type":"ARRAY","items":{"type":"STRING","description":"'' @
                      audiences_description @
                      ''"}}},"required":["behavior","audiences"]}}}}'')\<rparr>
         \<and> payload topic =
             JObj
               [(''contents'', JArr [JObj [(''parts'', JArr [JObj
                   [(''text'', JStr (userQuery_prefix @ topic @ userQuery_suffix))]])]]),
                (''systemInstruction'', JObj [(''parts'', JArr [JObj
                   [(''text'', JStr systemPrompt)]])]),
                (''generationConfig'', JObj
                   [(''responseMimeType'', JStr ''application/json''),
                    (''responseSchema'', JObj
                       [(''type'', JStr ''ARRAY''),
                        (''items'', JObj
                           [(''type'', JStr ''OBJECT''),
                            (''properties'', JObj
                               [(''behavior'', JObj
                                   [(''type'', JStr ''STRING''),
                                    (''description'', JStr behavior_description)]),
                                (''audiences'', JObj
                                   [(''type'', JStr ''ARRAY''),
                                    (''items'', JObj
                                       [(''type'', JStr ''STRING''),
                                        (''description'', JStr audiences_description)])])]),
                            (''required'', JArr [JStr ''behavior'', JStr ''audiences''])])])])]
         \<and> own_keys (at_path (payload topic)
               [''generationConfig'', ''responseSchema'', ''items'', ''properties'', ''audiences''])
             = [''type'', ''items'']
         \<and> audiences_description =
           [CHR 0xE5, CHR 0xB0, CHR 0x8D, CHR 0xE6, CHR 0xAD, CHR 0xA4, CHR 0xE8, CHR 0xA1, CHR 0x8C,
            CHR 0xE7, CHR 0x82, CHR 0xBA, CHR 0xE6, CHR 0x84, CHR 0x9F, CHR 0xE8, CHR 0x88, CHR 0x88,
            CHR 0xE8, CHR 0xB6, CHR 0xA3, CHR 0xE7, CHR 0x9A, CHR 0x84] @
           ''8-10'' @
           [CHR 0xE5, CHR 0x80, CHR 0x8B, CHR 0xE7, CHR 0xB2, CHR 0xBE, CHR 0xE6, CHR 0xBA, CHR 0x96,
            CHR 0xE5, CHR 0x8F, CHR 0x97, CHR 0xE7, CHR 0x9C, CHR 0xBE, CHR 0xE8, CHR 0xBC, CHR 0xAA,
            CHR 0xE5, CHR 0xBB, CHR 0x93, CHR 0xEF, CHR 0xBC, CHR 0x8C, CHR 0xE5, CHR 0xBF, CHR 0x85,
            CHR 0xE9, CHR 0xA0, CHR 0x88, CHR 0xE5, CHR 0x8C, CHR 0x85, CHR 0xE5, CHR 0x90, CHR 0xAB,
            CHR 0xE6, CHR 0xA8, CHR 0x99, CHR 0xE7, CHR 0xB1, CHR 0xA4, CHR 0xE5, CHR 0x92, CHR 0x8C,
            CHR 0xE8, CHR 0xA6, CHR 0x8F, CHR 0xE6, CHR 0xA8, CHR 0xA1]\<close>
proof -
  have "try_block w request = call_upstream w apiKey topic"
    using assms(2-5) by (rule try_block_valid)
  then have one: "fetches (handler w request) = [(apiUrl apiKey, fetchInit topic)]"
    using assms(1) by (simp add: fetches_handler_post fetches_call_upstream)
  have url: "apiUrl apiKey =
      ''https://generativelanguage.googleapis.com/v1beta/models/gemini-2.5-flash-preview-05-20:generateContent?key=''
      @ apiKey"
    by (simp add: apiUrl_def modelName_def)
  have init: \<open>fetchInit topic =
      \<lparr>init_method = ''POST'',
       init_headers = [(''Content-Type'', ''application/json'')],
       init_body =
         Some (''{"contents":[{"parts":[{"text":"'' @ userQuery_prefix @
               concat (map escape_char topic) @ userQuery_suffix @
               ''"}]}],"systemInstruction":{"parts":[{"text":"'' @ systemPrompt @
               ''"}]},"generationConfig":{"responseMimeType":"application/json","responseSchema":'' @
               ''{"type":"ARRAY","items":{"type":"OBJECT","properties":{"behavior":'' @
               ''{"type":"STRING","description":"'' @ behavior_description @
               ''"},"audiences":{"type":"ARRAY","items":{"type":"STRING","description":"'' @
               audiences_description @
               ''"}}},"required":["behavior","audiences"]}}}}'')\<rparr>\<close>
    unfolding fetchInit_def stringify_payload by (rule refl)
  have value_sent: "payload topic =
      JObj
        [(''contents'', JArr [JObj [(''parts'', JArr [JObj
            [(''text'', JStr (userQuery_prefix @ topic @ userQuery_suffix))]])]]),
         (''systemInstruction'', JObj [(''parts'', JArr [JObj
            [(''text'', JStr systemPrompt)]])]),
         (''generationConfig'', JObj
            [(''responseMimeType'', JStr ''application/json''),
             (''responseSchema'', JObj
                [(''type'', JStr ''ARRAY''),
                 (''items'', JObj
                    [(''type'', JStr ''OBJECT''),
                     (''properties'', JObj
                        [(''behavior'', JObj
                            [(''type'', JStr ''STRING''),
                             (''description'', JStr behavior_description)]),
                         (''audiences'', JObj
                            [(''type'', JStr ''ARRAY''),
                             (''items'', JObj
                                [(''type'', JStr ''STRING''),
                                 (''description'', JStr audiences_description)])])]),
                     (''required'', JArr [JStr ''behavior'', JStr ''audiences''])])])])]"
    by (simp only: payload_def userQuery_def responseSchema_def)
  have keys: "own_keys (at_path (payload topic)
       [''generationConfig'', ''responseSchema'', ''items'', ''properties'', ''audiences''])
     = [''type'', ''items'']"
    by (simp add: audiences_descriptor)
  have words: \<open>audiences_description =
           [CHR 0xE5, CHR 0xB0, CHR 0x8D, CHR 0xE6, CHR 0xAD, CHR 0xA4, CHR 0xE8, CHR 0xA1, CHR 0x8C,
            CHR 0xE7, CHR 0x82, CHR 0xBA, CHR 0xE6, CHR 0x84, CHR 0x9F, CHR 0xE8, CHR 0x88, CHR 0x88,
            CHR 0xE8, CHR 0xB6, CHR 0xA3, CHR 0xE7, CHR 0x9A, CHR 0x84] @
           ''8-10'' @
           [CHR 0xE5, CHR 0x80, CHR 0x8B, CHR 0xE7, CHR 0xB2, CHR 0xBE, CHR 0xE6, CHR 0xBA, CHR 0x96,
            CHR 0xE5, CHR 0x8F, CHR 0x97, CHR 0xE7, CHR 0x9C, CHR 0xBE, CHR 0xE8, CHR 0xBC, CHR 0xAA,
            CHR 0xE5, CHR 0xBB, CHR 0x93, CHR 0xEF, CHR 0xBC, CHR 0x8C, CHR 0xE5, CHR 0xBF, CHR 0x85,
            CHR 0xE9, CHR 0xA0, CHR 0x88, CHR 0xE5, CHR 0x8C, CHR 0x85, CHR 0xE5, CHR 0x90, CHR 0xAB,
            CHR 0xE6, CHR 0xA8, CHR 0x99, CHR 0xE7, CHR 0xB1, CHR 0xA4, CHR 0xE5, CHR 0x92, CHR 0x8C,
            CHR 0xE8, CHR 0xA6, CHR 0x8F, CHR 0xE6, CHR 0xA8, CHR 0xA1]\<close>
    by (simp add: audiences_description_def)
  from one url init value_sent keys words show ?thesis
    by (intro conjI)
qed

theorem outbound_request_shape_witness:
  \<open>fetches (handler
      (sample_platform (Some ''secret'') (Inl (JsError ''TypeError'' ''fetch failed'')))
      \<lparr>req_method = ''POST'', req_body = JObj [(''topic'', JStr ''say "hi"'')]\<rparr>)
   = [(''https://generativelanguage.googleapis.com/v1beta/models/gemini-2.5-flash-preview-05-20:generateContent?key=secret'',
       \<lparr>init_method = ''POST'',
        init_headers = [(''Content-Type'', ''application/json'')],
        init_body = Some (
           ''{"contents":[{"parts":[{"text":"'' @
           [CHR 0xE8, CHR 0xAB, CHR 0x8B, CHR 0xE9, CHR 0x87, CHR 0x9D, CHR 0xE5, CHR 0xB0, CHR 0x8D,
            CHR 0xE4, CHR 0xB8, CHR 0xBB, CHR 0xE9, CHR 0xA1, CHR 0x8C, CHR 0xEF, CHR 0xBC, CHR 0x9A,
            CHR 0xE3, CHR 0x80, CHR 0x8C] @
           ''say '' @
           [CHR 0x5C] @
           ''"hi'' @
           [CHR 0x5C] @
           ''"'' @
           [CHR 0xE3, CHR 0x80, CHR 0x8D, CHR 0xEF, CHR 0xBC, CHR 0x8C, CHR 0xE7, CHR 0x94, CHR 0x9F,
            CHR 0xE6, CHR 0x88, CHR 0x90] @
           ''10'' @
           [CHR 0xE5, CHR 0x80, CHR 0x8B, CHR 0xE8, CHR 0xA1, CHR 0x8C, CHR 0xE7, CHR 0x82, CHR 0xBA,
            CHR 0xE5, CHR 0x8F, CHR 0x8A, CHR 0xE6, CHR 0xAF, CHR 0x8F, CHR 0xE5, CHR 0x80, CHR 0x8B,
            CHR 0xE8, CHR 0xA1, CHR 0x8C, CHR 0xE7, CHR 0x82, CHR 0xBA, CHR 0xE4, CHR 0xB8, CHR 0x8B] @
           ''8-10'' @
           [CHR 0xE5, CHR 0x80, CHR 0x8B, CHR 0xE7, CHR 0xB2, CHR 0xBE, CHR 0xE6, CHR 0xBA, CHR 0x96,
            CHR 0xE5, CHR 0x8F, CHR 0x97, CHR 0xE7, CHR 0x9C, CHR 0xBE, CHR 0xE3, CHR 0x80, CHR 0x82] @
           ''"}]}],"systemInstruction":{"parts":[{"text":"'' @
           [CHR 0xE4, CHR 0xBD, CHR 0xA0, CHR 0xE6, CHR 0x98, CHR 0xAF, CHR 0xE4, CHR 0xB8, CHR 0x80,
            CHR 0xE4, CHR 0xBD, CHR 0x8D, CHR 0xE5, CHR 0xB8, CHR 0x82, CHR 0xE5, CHR 0xA0, CHR 0xB4,
            CHR 0xE8, CHR 0xAA, CHR 0xBF, CHR 0xE6, CHR 0x9F, CHR 0xA5, CHR 0xE5, CHR 0x93, CHR 0xA1,
            CHR 0xE5, CHR 0x92, CHR 0x8C, CHR 0xE5, CHR 0xBB, CHR 0xA3, CHR 0xE5, CHR 0x91, CHR 0x8A,
            CHR 0xE5, CHR 0xB0, CHR 0x88, CHR 0xE6, CHR 0xA5, CHR 0xAD, CHR 0xE7, CHR 0x9A, CHR 0x84,
            CHR 0xE5, CHR 0xBB, CHR 0xA3, CHR 0xE5, CHR 0x91, CHR 0x8A, CHR 0xE6, CHR 0x8A, CHR 0x95,
            CHR 0xE5, CHR 0x94, CHR 0xAE, CHR 0xE3, CHR 0x80, CHR 0x82, CHR 0xE4, CHR 0xBD, CHR 0xA0,
            CHR 0xE7, CHR 0x9A, CHR 0x84, CHR 0xE4, CHR 0xBB, CHR 0xBB, CHR 0xE5, CHR 0x8B, CHR 0x99,
            CHR 0xE6, CHR 0x98, CHR 0xAF, CHR 0xE6, CHR 0xA0, CHR 0xB9, CHR 0xE6, CHR 0x93, CHR 0x9A,
            CHR 0xE7, CHR 0x94, CHR 0xA8, CHR 0xE6, CHR 0x88, CHR 0xB6, CHR 0xE6, CHR 0x8F, CHR 0x90,
            CHR 0xE4, CHR 0xBE, CHR 0x9B, CHR 0xE7, CHR 0x9A, CHR 0x84, CHR 0xE7, CHR 0x94, CHR 0xA2,
            CHR 0xE5, CHR 0x93, CHR 0x81, CHR 0xE6, CHR 0x88, CHR 0x96, CHR 0xE8, CHR 0xAA, CHR 0xB2,
            CHR 0xE7, CHR 0xA8, CHR 0x8B, CHR 0xE4, CHR 0xB8, CHR 0xBB, CHR 0xE9, CHR 0xA1, CHR 0x8C,
            CHR 0xEF, CHR 0xBC, CHR 0x8C, CHR 0xE7, CHR 0x94, CHR 0x9F, CHR 0xE6, CHR 0x88, CHR 0x90,
            CHR 0xE4, CHR 0xB8, CHR 0x80, CHR 0xE5, CHR 0x80, CHR 0x8B, CHR 0xE5, CHR 0x8C, CHR 0x85,
            CHR 0xE5, CHR 0x90, CHR 0xAB] @
           ''10'' @
           [CHR 0xE5, CHR 0x80, CHR 0x8B, CHR 0xE8, CHR 0xA1, CHR 0x8C, CHR 0xE7, CHR 0x82, CHR 0xBA,
            CHR 0xE7, CHR 0x9A, CHR 0x84, CHR 0xE5, CHR 0x88, CHR 0x97, CHR 0xE8, CHR 0xA1, CHR 0xA8,
            CHR 0xEF, CHR 0xBC, CHR 0x8C, CHR 0xE4, CHR 0xBB, CHR 0xA5, CHR 0xE5, CHR 0x8F, CHR 0x8A,
            CHR 0xE6, CHR 0xAF, CHR 0x8F, CHR 0xE5, CHR 0x80, CHR 0x8B, CHR 0xE8, CHR 0xA1, CHR 0x8C,
            CHR 0xE7, CHR 0x82, CHR 0xBA, CHR 0xE5, CHR 0xBA, CHR 0x95, CHR 0xE4, CHR 0xB8, CHR 0x8B] @
           ''8'' @
           [CHR 0xE5, CHR 0x88, CHR 0xB0] @
           ''10'' @
           [CHR 0xE5, CHR 0x80, CHR 0x8B, CHR 0xE7, CHR 0xB2, CHR 0xBE, CHR 0xE6, CHR 0xBA, CHR 0x96,
            CHR 0xE7, CHR 0x9A, CHR 0x84, CHR 0xE6, CHR 0x84, CHR 0x9F, CHR 0xE8, CHR 0x88, CHR 0x88,
            CHR 0xE8, CHR 0xB6, CHR 0xA3, CHR 0xE5, CHR 0x8F, CHR 0x97, CHR 0xE7, CHR 0x9C, CHR 0xBE,
            CHR 0xE3, CHR 0x80, CHR 0x82, CHR 0xE6, CHR 0x9C, CHR 0x80, CHR 0xE9, CHR 0x87, CHR 0x8D,
            CHR 0xE8, CHR 0xA6, CHR 0x81, CHR 0xE7, CHR 0x9A, CHR 0x84, CHR 0xE4, CHR 0xB8, CHR 0x80,
            CHR 0xE9, CHR 0xBB, CHR 0x9E, CHR 0xE6, CHR 0x98, CHR 0xAF, CHR 0xEF, CHR 0xBC, CHR 0x9A] @
           ''**'' @
           [CHR 0xE6, CHR 0xAF, CHR 0x8F, CHR 0xE5, CHR 0x80, CHR 0x8B, CHR 0xE6, CHR 0x84, CHR 0x9F,
            CHR 0xE8, CHR 0x88, CHR 0x88, CHR 0xE8, CHR 0xB6, CHR 0xA3, CHR 0xE5, CHR 0x8F, CHR 0x97,
            CHR 0xE7, CHR 0x9C, CHR 0xBE, CHR 0xE7, CHR 0x9A, CHR 0x84, CHR 0xE6, CHR 0x8F, CHR 0x8F,
            CHR 0xE8, CHR 0xBF, CHR 0xB0, CHR 0xE5, CHR 0xBE, CHR 0x8C, CHR 0xE6, CHR 0x96, CHR 0xB9,
            CHR 0xEF, CHR 0xBC, CHR 0x8C, CHR 0xE8, CHR 0xAB, CHR 0x8B, CHR 0xE5, CHR 0x8B, CHR 0x99,
            CHR 0xE5, CHR 0xBF, CHR 0x85, CHR 0xE4, CHR 0xBD, CHR 0xBF, CHR 0xE7, CHR 0x94, CHR 0xA8,
            CHR 0xE6, CHR 0x8B, CHR 0xAC, CHR 0xE8, CHR 0x99, CHR 0x9F] @
           '' `(...)` '' @
           [CHR 0xE6, CHR 0xA8, CHR 0x99, CHR 0xE7, CHR 0xA4, CHR 0xBA, CHR 0xE4, CHR 0xB8, CHR 0x80,
            CHR 0xE5, CHR 0x80, CHR 0x8B, CHR 0xE6, CHR 0x9C, CHR 0x80, CHR 0xE7, CHR 0x9B, CHR 0xB8,
            CHR 0xE9, CHR 0x97, CHR 0x9C, CHR 0xE7, CHR 0x9A, CHR 0x84, CHR 0xE5, CHR 0xBB, CHR 0xA3,
            CHR 0xE5, CHR 0x91, CHR 0x8A, CHR 0xE5, CHR 0xB9, CHR 0xB3, CHR 0xE5, CHR 0x8F, CHR 0xB0,
            CHR 0xE5, CHR 0x8F, CHR 0xAF, CHR 0xE9, CHR 0x81, CHR 0xB8, CHR 0xE5, CHR 0x8F, CHR 0x96,
            CHR 0xE7, CHR 0x9A, CHR 0x84, CHR 0xE5, CHR 0x8F, CHR 0x97, CHR 0xE7, CHR 0x9C, CHR 0xBE,
            CHR 0xE6, CHR 0xA8, CHR 0x99, CHR 0xE7, CHR 0xB1, CHR 0xA4, CHR 0xEF, CHR 0xBC, CHR 0x88,
            CHR 0xE4, CHR 0xBE, CHR 0x8B, CHR 0xE5, CHR 0xA6, CHR 0x82, CHR 0xEF, CHR 0xBC, CHR 0x9A,
            CHR 0xE8, CHR 0x88, CHR 0x88, CHR 0xE8, CHR 0xB6, CHR 0xA3, CHR 0xE6, CHR 0xA8, CHR 0x99,
            CHR 0xE7, CHR 0xB1, CHR 0xA4, CHR 0xE6, CHR 0x88, CHR 0x96, CHR 0xE8, CHR 0xA1, CHR 0x8C,
            CHR 0xE7, CHR 0x82, CHR 0xBA, CHR 0xE6, CHR 0xA8, CHR 0x99, CHR 0xE7, CHR 0xB1, CHR 0xA4,
            CHR 0xEF, CHR 0xBC, CHR 0x89, CHR 0xEF, CHR 0xBC, CHR 0x8C, CHR 0xE4, CHR 0xB8, CHR 0xA6,
            CHR 0xE7, CHR 0xB7, CHR 0x8A, CHR 0xE6, CHR 0x8E, CHR 0xA5, CHR 0xE8, CHR 0x91, CHR 0x97,
            CHR 0xE4, CHR 0xBD, CHR 0xBF, CHR 0xE7, CHR 0x94, CHR 0xA8, CHR 0xE6, CHR 0x96, CHR 0xB9,
            CHR 0xE6, CHR 0x8B, CHR 0xAC, CHR 0xE8, CHR 0x99, CHR 0x9F] @
           '' `[...]` '' @
           [CHR 0xE6, CHR 0xA8, CHR 0x99, CHR 0xE7, CHR 0xA4, CHR 0xBA, CHR 0xE8, CHR 0xA9, CHR 0xB2,
            CHR 0xE5, CHR 0x8F, CHR 0x97, CHR 0xE7, CHR 0x9C, CHR 0xBE, CHR 0xE8, CHR 0xA6, CHR 0x8F,
            CHR 0xE6, CHR 0xA8, CHR 0xA1, CHR 0xE7, CHR 0x9A, CHR 0x84, CHR 0xE9, CHR 0xA0, CHR 0x90,
            CHR 0xE4, CHR 0xBC, CHR 0xB0, CHR 0xE4, CHR 0xBA, CHR 0xBA, CHR 0xE6, CHR 0x95, CHR 0xB8,
            CHR 0xE7, CHR 0xAF, CHR 0x84, CHR 0xE5, CHR 0x9C, CHR 0x8D, CHR 0xE3, CHR 0x80, CHR 0x82,
            CHR 0xE8, CHR 0xAB, CHR 0x8B, CHR 0xE4, CHR 0xBB, CHR 0xA5, CHR 0xE4, CHR 0xB8, CHR 0xAD,
            CHR 0xE6, CHR 0x96, CHR 0x87, CHR 0xE6, CHR 0x95, CHR 0xB8, CHR 0xE5, CHR 0xAD, CHR 0x97,
            CHR 0xE5, CHR 0x96, CHR 0xAE, CHR 0xE4, CHR 0xBD, CHR 0x8D] @
           '' ('' @
           [CHR 0xE8, CHR 0x90, CHR 0xAC] @
           '', '' @
           [CHR 0xE7, CHR 0x99, CHR 0xBE, CHR 0xE8, CHR 0x90, CHR 0xAC] @
           '') '' @
           [CHR 0xE5, CHR 0x91, CHR 0x88, CHR 0xE7, CHR 0x8F, CHR 0xBE, CHR 0xEF, CHR 0xBC, CHR 0x8C,
            CHR 0xE4, CHR 0xBE, CHR 0x8B, CHR 0xE5, CHR 0xA6, CHR 0x82, CHR 0xEF, CHR 0xBC, CHR 0x9A] @
           ''['' @
           [CHR 0xE4, CHR 0xBA, CHR 0xBA, CHR 0xE6, CHR 0x95, CHR 0xB8, CHR 0xE7, CHR 0xAF, CHR 0x84,
            CHR 0xE5, CHR 0x9C, CHR 0x8D] @
           '': 20'' @
           [CHR 0xE8, CHR 0x90, CHR 0xAC] @
           '' - 150'' @
           [CHR 0xE8, CHR 0x90, CHR 0xAC] @
           '']**'' @
           [CHR 0xE3, CHR 0x80, CHR 0x82, CHR 0xE8, CHR 0xAB, CHR 0x8B, CHR 0xE4, CHR 0xBB, CHR 0xA5,
            CHR 0xE7, CHR 0xB9, CHR 0x81, CHR 0xE9, CHR 0xAB, CHR 0x94, CHR 0xE4, CHR 0xB8, CHR 0xAD,
            CHR 0xE6, CHR 0x96, CHR 0x87, CHR 0xE5, CHR 0x9B, CHR 0x9E, CHR 0xE6, CHR 0x87, CHR 0x89,
            CHR 0xEF, CHR 0xBC, CHR 0x8C, CHR 0xE4, CHR 0xB8, CHR 0xA6, CHR 0xE5, CHR 0x9A, CHR 0xB4,
            CHR 0xE6, CHR 0xA0, CHR 0xBC, CHR 0xE9, CHR 0x81, CHR 0xB5, CHR 0xE5, CHR 0xBE, CHR 0xAA,
            CHR 0xE6, CHR 0x8F, CHR 0x90, CHR 0xE4, CHR 0xBE, CHR 0x9B, CHR 0xE7, CHR 0x9A, CHR 0x84] @
           ''JSON'' @
           [CHR 0xE7, CHR 0xB5, CHR 0x90, CHR 0xE6, CHR 0xA7, CHR 0x8B, CHR 0xE5, CHR 0x92, CHR 0x8C,
            CHR 0xE6, CHR 0x95, CHR 0xB8, CHR 0xE9, CHR 0x87, CHR 0x8F, CHR 0xE8, CHR 0xA6, CHR 0x81,
            CHR 0xE6, CHR 0xB1, CHR 0x82, CHR 0xE3, CHR 0x80, CHR 0x82, CHR 0xE8, CHR 0xAB, CHR 0x8B,
            CHR 0xE7, CHR 0xA2, CHR 0xBA, CHR 0xE4, CHR 0xBF, CHR 0x9D, CHR 0xE5, CHR 0x8F, CHR 0x97,
            CHR 0xE7, CHR 0x9C, CHR 0xBE, CHR 0xE6, CHR 0x8F, CHR 0x8F, CHR 0xE8, CHR 0xBF, CHR 0xB0,
            CHR 0xE5, CHR 0x85, CHR 0xB7, CHR 0xE9, CHR 0xAB, CHR 0x94, CHR 0xE3, CHR 0x80, CHR 0x81,
            CHR 0xE5, CHR 0xB0, CHR 0x88, CHR 0xE6, CHR 0xA5, CHR 0xAD, CHR 0xE4, CHR 0xB8, CHR 0x94,
            CHR 0xE7, CHR 0xAC, CHR 0xA6, CHR 0xE5, CHR 0x90, CHR 0x88, CHR 0xE5, CHR 0xB8, CHR 0x82,
            CHR 0xE5, CHR 0xA0, CHR 0xB4, CHR 0xE8, CHR 0xA1, CHR 0x8C, CHR 0xE9, CHR 0x8A, CHR 0xB7,
            CHR 0xE7, CHR 0x9A, CHR 0x84, CHR 0xE9, CHR 0x82, CHR 0x8F, CHR 0xE8, CHR 0xBC, CHR 0xAF,
            CHR 0xE3, CHR 0x80, CHR 0x82] @
           ''"}]},"generationConfig":{"responseMimeType":"application/json","responseSchema":'' @
           ''{"type":"ARRAY","items":{"type":"OBJECT","properties":{"behavior":{"type":"STRIN'' @
           ''G","description":"'' @
           [CHR 0xE8, CHR 0x88, CHR 0x87, CHR 0xE7, CHR 0x94, CHR 0xA2, CHR 0xE5, CHR 0x93, CHR 0x81,
            CHR 0xE4, CHR 0xB8, CHR 0xBB, CHR 0xE9, CHR 0xA1, CHR 0x8C, CHR 0xE7, CHR 0x9B, CHR 0xB8,
            CHR 0xE9, CHR 0x97, CHR 0x9C, CHR 0xE7, CHR 0x9A, CHR 0x84, CHR 0xE5, CHR 0x85, CHR 0xB7,
            CHR 0xE9, CHR 0xAB, CHR 0x94, CHR 0xE7, CHR 0x94, CHR 0xA8, CHR 0xE6, CHR 0x88, CHR 0xB6,
            CHR 0xE8, CHR 0xA1, CHR 0x8C, CHR 0xE7, CHR 0x82, CHR 0xBA] @
           ''"},"audiences":{"type":"ARRAY","items":{"type":"STRING","description":"'' @
           [CHR 0xE5, CHR 0xB0, CHR 0x8D, CHR 0xE6, CHR 0xAD, CHR 0xA4, CHR 0xE8, CHR 0xA1, CHR 0x8C,
            CHR 0xE7, CHR 0x82, CHR 0xBA, CHR 0xE6, CHR 0x84, CHR 0x9F, CHR 0xE8, CHR 0x88, CHR 0x88,
            CHR 0xE8, CHR 0xB6, CHR 0xA3, CHR 0xE7, CHR 0x9A, CHR 0x84] @
           ''8-10'' @
           [CHR 0xE5, CHR 0x80, CHR 0x8B, CHR 0xE7, CHR 0xB2, CHR 0xBE, CHR 0xE6, CHR 0xBA, CHR 0x96,
            CHR 0xE5, CHR 0x8F, CHR 0x97, CHR 0xE7, CHR 0x9C, CHR 0xBE, CHR 0xE8, CHR 0xBC, CHR 0xAA,
            CHR 0xE5, CHR 0xBB, CHR 0x93, CHR 0xEF, CHR 0xBC, CHR 0x8C, CHR 0xE5, CHR 0xBF, CHR 0x85,
            CHR 0xE9, CHR 0xA0, CHR 0x88, CHR 0xE5, CHR 0x8C, CHR 0x85, CHR 0xE5, CHR 0x90, CHR 0xAB,
            CHR 0xE6, CHR 0xA8, CHR 0x99, CHR 0xE7, CHR 0xB1, CHR 0xA4, CHR 0xE5, CHR 0x92, CHR 0x8C,
            CHR 0xE8, CHR 0xA6, CHR 0x8F, CHR 0xE6, CHR 0xA8, CHR 0xA1] @
           ''"}}},"required":["behavior","audiences"]}}}}'')\<rparr>)]\<close>
  using outbound_request_shape
          [of \<open>\<lparr>req_method = ''POST'', req_body = JObj [(''topic'', JStr ''say "hi"'')]\<rparr>\<close>
              \<open>''say "hi"''\<close>
              "sample_platform (Some ''secret'') (Inl (JsError ''TypeError'' ''fetch failed''))"
              "''secret''"]
  by (simp add: get_prop_def sample_env escape_char_def userQuery_prefix_def
        userQuery_suffix_def systemPrompt_def behavior_description_def
        audiences_description_def)

text \<open>
  C6, as first stated, has the schema require 8 to 10 audiences. It does not: in the run
  of the sample POST the one outbound call sends the serialised payload, and the
  descriptor of \<^verbatim>\<open>audiences\<close> in that payload has the properties \<^verbatim>\<open>type\<close> and
  \<^verbatim>\<open>items\<close> and no other, so neither \<^verbatim>\<open>minItems\<close> nor \<^verbatim>\<open>maxItems\<close>.
\<close>

theorem schema_sets_no_item_count:
  "fetches (handler (sample_platform (Some ''secret'') (Inr (json_response 200 sample_data)))
      sample_post)
   = [(apiUrl ''secret'', fetchInit sample_topic)]
   \<and> init_body (fetchInit sample_topic) = stringify (payload sample_topic)
   \<and> stringify (payload sample_topic) \<noteq> None
   \<and> at_path (payload sample_topic)
        [''generationConfig'', ''responseSchema'', ''items'', ''properties'', ''audiences'']
      = JObj [(''type'', JStr ''ARRAY''),
              (''items'', JObj [(''type'', JStr ''STRING''),
                                (''description'', JStr audiences_description)])]
   \<and> ''minItems'' \<notin> set (own_keys (at_path (payload sample_topic)
        [''generationConfig'', ''responseSchema'', ''items'', ''properties'', ''audiences'']))
   \<and> ''maxItems'' \<notin> set (own_keys (at_path (payload sample_topic)
        [''generationConfig'', ''responseSchema'', ''items'', ''properties'', ''audiences'']))"
proof -
  have "try_block (sample_platform (Some ''secret'') (Inr (json_response 200 sample_data)))
          sample_post
        = call_upstream (sample_platform (Some ''secret'') (Inr (json_response 200 sample_data)))
            ''secret'' sample_topic"
    by (rule try_block_valid)
       (simp_all add: sample_destructure sample_topic_nonempty sample_env)
  then have "fetches (handler
        (sample_platform (Some ''secret'') (Inr (json_response 200 sample_data))) sample_post)
      = [(apiUrl ''secret'', fetchInit sample_topic)]"
    by (simp add: fetches_handler_post sample_post_method fetches_call_upstream)
  moreover have "init_body (fetchInit sample_topic) = stringify (payload sample_topic)"
    by (simp add: fetchInit_def)
  moreover have "stringify (payload sample_topic) \<noteq> None"
    by (simp add: stringify_payload)
  ultimately show ?thesis
    by (simp add: audiences_descriptor)
qed

text \<open>
  C7. The checks run in the order method, topic, credential. A request that is not a
  POST is answered 405 whatever its body and whatever the environment; a POST whose body
  is an object with a falsy \<^verbatim>\<open>topic\<close> is answered 400 whatever the environment, a missing
  credential included; and a POST with a truthy topic meets the credential check next:
  without a credential it is answered 500 by that check.
\<close>

theorem validation_order:
  "(req_method request \<noteq> ''POST'' \<longrightarrow>
      responses (handler w request) = [(405, JObj [(''error'', JStr ''Method Not Allowed'')])])
   \<and> (req_method request = ''POST'' \<and> req_body request = JObj kvs
        \<and> \<not> truthy (get_prop kvs ''topic'') \<longrightarrow>
      responses (handler w request) = [(400, JObj [(''error'', JStr msg_topic_required)])])
   \<and> (req_method request = ''POST'' \<and> req_body request = JObj kvs
        \<and> truthy (get_prop kvs ''topic'')
        \<and> (process_env w ''GEMINI_API_KEY'' = None \<or> process_env w ''GEMINI_API_KEY'' = Some [])
        \<longrightarrow>
      responses (handler w request) = [(500, JObj [(''error'', JStr msg_key_missing)])])"
  by (auto simp: handler_def try_block_def key_missing_def)

theorem validation_order_witness:
  "responses (handler (sample_platform None (Inr (json_response 200 sample_data)))
      \<lparr>req_method = ''GET'', req_body = JNull\<rparr>)
   = [(405, JObj [(''error'', JStr ''Method Not Allowed'')])]
   \<and> responses (handler (sample_platform None (Inr (json_response 200 sample_data)))
      \<lparr>req_method = ''POST'', req_body = JObj []\<rparr>)
   = [(400, JObj [(''error'', JStr msg_topic_required)])]
   \<and> responses (handler (sample_platform None (Inr (json_response 200 sample_data))) sample_post)
   = [(500, JObj [(''error'', JStr msg_key_missing)])]"
  using validation_order
          [of "\<lparr>req_method = ''GET'', req_body = JNull\<rparr>"
              "sample_platform None (Inr (json_response 200 sample_data))" "[]"]
        validation_order
          [of "\<lparr>req_method = ''POST'', req_body = JObj []\<rparr>"
              "sample_platform None (Inr (json_response 200 sample_data))" "[]"]
        validation_order
          [of sample_post "sample_platform None (Inr (json_response 200 sample_data))"
              "[(''topic'', JStr sample_topic)]"]
  by (simp add: get_prop_def sample_env sample_post_def sample_topic_nonempty)

text \<open>
  C8. Every run holds at most one outbound call and exactly one HTTP response. It holds
  exactly one call when the method is POST, the topic is a non-empty string and the
  credential is configured; it holds none when the method is not POST, when the topic is
  falsy, or when the credential is absent or empty.
\<close>

theorem one_call_one_response:
  "length (fetches (handler w request)) \<le> 1
   \<and> length (responses (handler w request)) = 1
   \<and> (req_method request = ''POST''
        \<and> destructure_topic (req_body request) = Inr (JStr topic) \<and> topic \<noteq> []
        \<and> process_env w ''GEMINI_API_KEY'' = Some apiKey \<and> apiKey \<noteq> [] \<longrightarrow>
      length (fetches (handler w request)) = 1)
   \<and> (req_method request \<noteq> ''POST'' \<longrightarrow> fetches (handler w request) = [])
   \<and> (destructure_topic (req_body request) = Inr t \<and> \<not> truthy t \<longrightarrow>
      fetches (handler w request) = [])
   \<and> (process_env w ''GEMINI_API_KEY'' = None \<or> process_env w ''GEMINI_API_KEY'' = Some [] \<longrightarrow>
      fetches (handler w request) = [])"
proof -
  have not_post: "handler w request = [Respond 405 (JObj [(''error'', JStr ''Method Not Allowed'')])]"
    if "req_method request \<noteq> ''POST''"
    using that by (simp add: handler_def)
  have at_most: "length (fetches (handler w request)) \<le> 1"
  proof (cases "req_method request = ''POST''")
    case True
    then show ?thesis
      using fetches_try_block_le [of w request] by (simp add: fetches_handler_post)
  next
    case False
    then show ?thesis
      by (simp add: not_post)
  qed
  have one_response: "length (responses (handler w request)) = 1"
  proof (cases "req_method request = ''POST''")
    case True
    obtain effects ending where run: "try_block w request = (effects, ending)"
      by (cases "try_block w request")
    show ?thesis
      using True run responses_try_block [of w request]
      by (cases ending) (simp_all add: handler_post responses_append catch_block_def)
  next
    case False
    then show ?thesis
      by (simp add: not_post)
  qed
  have exactly: "length (fetches (handler w request)) = 1"
    if "req_method request = ''POST''"
      and "destructure_topic (req_body request) = Inr (JStr topic)" and "topic \<noteq> []"
      and "process_env w ''GEMINI_API_KEY'' = Some apiKey" and "apiKey \<noteq> []"
    using that by (simp add: fetches_handler_post try_block_valid fetches_call_upstream)
  have falsy: "fetches (handler w request) = []"
    if "destructure_topic (req_body request) = Inr t" and "\<not> truthy t"
    using that
    by (cases "req_method request = ''POST''")
       (simp_all add: fetches_handler_post try_block_def not_post)
  have no_key: "fetches (handler w request) = []"
    if "process_env w ''GEMINI_API_KEY'' = None \<or> process_env w ''GEMINI_API_KEY'' = Some []"
    using that
    by (cases "req_method request = ''POST''")
       (auto simp: fetches_handler_post try_block_def key_missing_def not_post
          split: sum.splits)
  from at_most one_response exactly falsy no_key not_post show ?thesis
    by simp
qed

theorem one_call_one_response_witness:
  "length (fetches (handler (sample_platform (Some ''secret'')
       (Inr (json_response 200 sample_data))) sample_post)) = 1
   \<and> length (responses (handler (sample_platform (Some ''secret'')
       (Inr (json_response 200 sample_data))) sample_post)) = 1
   \<and> fetches (handler (sample_platform None (Inr (json_response 200 sample_data)))
       sample_post) = []"
  using one_call_one_response
          [of "sample_platform (Some ''secret'') (Inr (json_response 200 sample_data))"
              sample_post sample_topic "''secret''" JUndefined]
        one_call_one_response
          [of "sample_platform None (Inr (json_response 200 sample_data))"
              sample_post sample_topic "''secret''" JUndefined]
  by (simp add: sample_destructure sample_topic_nonempty sample_post_method sample_env)

text \<open>
  C9. For a POST whose body is undefined or null, taking \<^verbatim>\<open>topic\<close> out of the body
  throws; the catch logs the error and the run ends with the response 500 whose body
  has the generic \<^verbatim>\<open>error\<close> and the thrown error's message as \<^verbatim>\<open>details\<close>. The answer
  is not 400.
\<close>

theorem nullish_body_is_500:
  assumes "req_method request = ''POST''"
    and "req_body request = JUndefined \<or> req_body request = JNull"
  shows "\<exists>error.
           destructure_topic (req_body request) = Inl error
           \<and> handler w request =
               [ConsoleError [LogText log_proxy_error, LogErr error],
                Respond 500 (JObj [(''error'', JStr msg_internal_error),
                                   (''details'', JStr (message error))])]"
  using assms by (auto simp: handler_post try_block_def catch_block_def)

theorem nullish_body_is_500_witness:
  "responses (handler (sample_platform (Some ''secret'') (Inr (json_response 200 sample_data)))
      \<lparr>req_method = ''POST'', req_body = JUndefined\<rparr>)
   = [(500, JObj [(''error'', JStr msg_internal_error),
                  (''details'', JStr (message (destructure_error ''undefined'')))])]"
  using nullish_body_is_500
          [of "\<lparr>req_method = ''POST'', req_body = JUndefined\<rparr>"
              "sample_platform (Some ''secret'') (Inr (json_response 200 sample_data))"]
  by auto

text \<open>
  C10. For a POST with a non-empty topic and a configured credential, when the upstream
  call answers with a success status and a body on which \<^verbatim>\<open>json()\<close> throws, the run is
  the outbound call, the log line of the catch, and the response 500 whose body has the
  generic \<^verbatim>\<open>error\<close> and the parse error's message as \<^verbatim>\<open>details\<close>. The answer is not 200.
\<close>

theorem unparseable_success_is_500:
  assumes "req_method request = ''POST''"
    and "destructure_topic (req_body request) = Inr (JStr topic)"
    and "topic \<noteq> []"
    and "process_env w ''GEMINI_API_KEY'' = Some apiKey"
    and "apiKey \<noteq> []"
    and "fetch w (apiUrl apiKey) (fetchInit topic) = Inr geminiResponse"
    and "ok geminiResponse"
    and "json_result geminiResponse = Inl error"
  shows "handler w request =
           [Fetch (apiUrl apiKey) (fetchInit topic),
            ConsoleError [LogText log_proxy_error, LogErr error],
            Respond 500 (JObj [(''error'', JStr msg_internal_error),
                               (''details'', JStr (message error))])]"
proof -
  have "try_block w request = call_upstream w apiKey topic"
    using assms(2-5) by (rule try_block_valid)
  also have "\<dots> = ([Fetch (apiUrl apiKey) (fetchInit topic)], Inl error)"
    using assms(6-8) by (simp add: call_upstream_def)
  finally show ?thesis
    using assms(1) by (simp add: handler_post catch_block_def)
qed

theorem unparseable_success_is_500_witness:
  "handler (sample_platform (Some ''secret'') (Inr (text_response 200 ''<html>'')))
     sample_post =
     [Fetch (apiUrl ''secret'') (fetchInit sample_topic),
      ConsoleError [LogText log_proxy_error, LogErr not_json],
      Respond 500 (JObj [(''error'', JStr msg_internal_error),
                         (''details'', JStr (message not_json))])]"
  using unparseable_success_is_500
          [of sample_post sample_topic
              "sample_platform (Some ''secret'') (Inr (text_response 200 ''<html>''))"
              "''secret''" "text_response 200 ''<html>''" not_json]
  by (simp add: sample_destructure sample_topic_nonempty sample_post_method sample_env
        sample_fetch ok_def text_response_def)

end
